theory Spec2Isabelle
  imports Main
begin

section \<open>The preprocessor state seen by port/port_config.h\<close>

text \<open>
  port_config.h is a header made of preprocessor directives only.  Its input is the
  macro table at the point of inclusion (command-line definitions such as
  \<^verbatim>\<open>-DHAVE_SNAPPY=0\<close> or \<^verbatim>\<open>-DOS_FREEBSD\<close>), and the system headers of the
  target platform; its output is the macro table after the last directive, or a fatal
  diagnostic when an \<^verbatim>\<open>#include\<close> names a file that does not exist.

  A replacement list is kept as the expression it spells.  The header writes
  \<^verbatim>\<open>0\<close>, \<^verbatim>\<open>1\<close>, \<^verbatim>\<open>true\<close>, \<^verbatim>\<open>false\<close>, \<^verbatim>\<open>(A == B)\<close> and, for the
  include guard, the empty list.
\<close>

datatype expr =
    Empty
  | IntLit int
  | BoolLit bool
  | Ident string
  | Equals expr expr

text \<open>
  The macro table is an association list, newest definition first, so that a
  redefinition shadows the older one.  \<open>included\<close> logs every file that an
  \<^verbatim>\<open>#include\<close> directive has opened, newest first.
\<close>

record cpp_state =
  macros :: "(string \<times> expr) list"
  included :: "string list"

text \<open>
  A system header is what the preprocessor and the compiler get from it: the macros
  it defines (with those of the files it includes in turn), and the functions it
  declares.  Declarations are ordinary C++ and are invisible to \<^verbatim>\<open>defined(...)\<close>.
\<close>

record header =
  hdr_macros :: "(string \<times> expr) list"
  hdr_decls :: "string list"

record env =
  headers :: "(string \<times> header) list"

datatype error = MissingHeader string

definition pp_defined :: "string \<Rightarrow> cpp_state \<Rightarrow> bool" where
  "pp_defined m st = (map_of (macros st) m \<noteq> None)"

definition pp_define :: "string \<Rightarrow> expr \<Rightarrow> cpp_state \<Rightarrow> cpp_state" where
  "pp_define m b st = st\<lparr>macros := (m, b) # macros st\<rparr>"

text \<open>
  \<^verbatim>\<open>__has_include (<h>)\<close>: the file can be opened.  The preprocessor is taken to
  implement this operator, as the header assumes without a guard of its own.
\<close>

definition has_include :: "env \<Rightarrow> string \<Rightarrow> bool" where
  "has_include e h = (map_of (headers e) h \<noteq> None)"

text \<open>\<^verbatim>\<open>#include <h>\<close>: a fatal error when the file is missing.\<close>

definition pp_include :: "env \<Rightarrow> string \<Rightarrow> cpp_state \<Rightarrow> error + cpp_state" where
  "pp_include e h st =
     (case map_of (headers e) h of
        None \<Rightarrow> Inl (MissingHeader h)
      | Some f \<Rightarrow> Inr (st\<lparr>macros := hdr_macros f @ macros st, included := h # included st\<rparr>))"

text \<open>What a header of the platform provides; nothing when the file does not exist.\<close>

definition header_macros :: "env \<Rightarrow> string \<Rightarrow> (string \<times> expr) list" where
  "header_macros e h = (case map_of (headers e) h of None \<Rightarrow> [] | Some f \<Rightarrow> hdr_macros f)"

definition header_decls :: "env \<Rightarrow> string \<Rightarrow> string list" where
  "header_decls e h = (case map_of (headers e) h of None \<Rightarrow> [] | Some f \<Rightarrow> hdr_decls f)"

text \<open>The state once \<^verbatim>\<open>#include <h>\<close> has gone through.\<close>

definition after_include :: "env \<Rightarrow> string \<Rightarrow> cpp_state \<Rightarrow> cpp_state" where
  "after_include e h st =
     st\<lparr>macros := header_macros e h @ macros st, included := h # included st\<rparr>"

text \<open>No system header of the platform defines the macro \<open>m\<close>.\<close>

definition headers_avoid :: "env \<Rightarrow> string \<Rightarrow> bool" where
  "headers_avoid e m = list_all (\<lambda>hf. map_of (hdr_macros (snd hf)) m = None) (headers e)"

text \<open>Directives run in sequence; a fatal error stops the translation unit.\<close>

definition and_then :: "error + cpp_state \<Rightarrow> (cpp_state \<Rightarrow> error + cpp_state) \<Rightarrow> error + cpp_state" where
  "and_then r f = (case r of Inl err \<Rightarrow> Inl err | Inr st \<Rightarrow> f st)"

section \<open>port_config.h, block by block\<close>

text \<open>Lines 8-20: \<^verbatim>\<open>// Check for fdatasync() in <unistd.h>.\<close>\<close>

definition check_fdatasync :: "env \<Rightarrow> cpp_state \<Rightarrow> error + cpp_state" where
  "check_fdatasync e st =
     (if \<not> pp_defined ''HAVE_FDATASYNC'' st then
        (if has_include e ''unistd.h'' then
           and_then (pp_include e ''unistd.h'' st) (\<lambda>st1.
             if pp_defined ''fdatasync'' st1
             then Inr (pp_define ''HAVE_FDATASYNC'' (IntLit 1) st1)
             else Inr (pp_define ''HAVE_FDATASYNC'' (IntLit 0) st1))
         else Inr (pp_define ''HAVE_FDATASYNC'' (IntLit 0) st))
      else Inr st)"

text \<open>Lines 22-34: \<^verbatim>\<open>// Check for F_FULLFSYNC in <fcntl.h>.\<close>\<close>

definition check_fullfsync :: "env \<Rightarrow> cpp_state \<Rightarrow> error + cpp_state" where
  "check_fullfsync e st =
     (if \<not> pp_defined ''HAVE_FULLFSYNC'' st then
        (if has_include e ''fcntl.h'' then
           and_then (pp_include e ''fcntl.h'' st) (\<lambda>st1.
             if pp_defined ''F_FULLFSYNC'' st1
             then Inr (pp_define ''HAVE_FULLFSYNC'' (IntLit 1) st1)
             else Inr (pp_define ''HAVE_FULLFSYNC'' (IntLit 0) st1))
         else Inr (pp_define ''HAVE_FULLFSYNC'' (IntLit 0) st))
      else Inr st)"

text \<open>Lines 36-39: \<^verbatim>\<open>// Check CRC32C.\<close>\<close>

definition check_crc32c :: "cpp_state \<Rightarrow> error + cpp_state" where
  "check_crc32c st =
     (if \<not> pp_defined ''HAVE_CRC32C'' st
      then Inr (pp_define ''HAVE_CRC32C'' (IntLit 0) st)
      else Inr st)"

text \<open>Lines 41-44: \<^verbatim>\<open>// Check Snappy.\<close>\<close>

definition check_snappy :: "cpp_state \<Rightarrow> error + cpp_state" where
  "check_snappy st =
     (if \<not> pp_defined ''HAVE_SNAPPY'' st
      then Inr (pp_define ''HAVE_SNAPPY'' (IntLit 1) st)
      else Inr st)"

text \<open>
  Lines 46-79: \<^verbatim>\<open>// Check Endianness.\<close>  The \<^verbatim>\<open>#if\<close>/\<^verbatim>\<open>#elif\<close> chain is tried
  top to bottom; the includes of this block are not guarded by \<^verbatim>\<open>__has_include\<close>.
\<close>

definition check_endianness :: "env \<Rightarrow> cpp_state \<Rightarrow> error + cpp_state" where
  "check_endianness e st =
     (if \<not> pp_defined ''LEVELDB_IS_BIG_ENDIAN'' st then
        (if pp_defined ''OS_MACOSX'' st \<or> pp_defined ''OS_IOS'' st then
           and_then (pp_include e ''machine/endian.h'' st) (\<lambda>st1.
             if pp_defined ''__DARWIN_BIG_ENDIAN'' st1 \<and> pp_defined ''__DARWIN_BYTE_ORDER'' st1
             then Inr (pp_define ''LEVELDB_IS_BIG_ENDIAN''
                         (Equals (Ident ''__DARWIN_BYTE_ORDER'') (Ident ''__DARWIN_BIG_ENDIAN'')) st1)
             else Inr st1)
         else if pp_defined ''OS_SOLARIS'' st then
           and_then (pp_include e ''sys/isa_defs.h'' st) (\<lambda>st1.
             if pp_defined ''_BIG_ENDIAN'' st1
             then Inr (pp_define ''LEVELDB_IS_BIG_ENDIAN'' (BoolLit True) st1)
             else Inr (pp_define ''LEVELDB_IS_BIG_ENDIAN'' (BoolLit False) st1))
         else if pp_defined ''OS_FREEBSD'' st \<or> pp_defined ''OS_OPENBSD'' st \<or>
                 pp_defined ''OS_NETBSD'' st \<or> pp_defined ''OS_DRAGONFLYBSD'' st then
           and_then (pp_include e ''sys/types.h'' st) (\<lambda>st1.
           and_then (pp_include e ''sys/endian.h'' st1) (\<lambda>st2.
             Inr (pp_define ''LEVELDB_IS_BIG_ENDIAN''
                    (Equals (Ident ''_BYTE_ORDER'') (Ident ''_BIG_ENDIAN'')) st2)))
         else if pp_defined ''OS_HPUX'' st then
           Inr (pp_define ''LEVELDB_IS_BIG_ENDIAN'' (BoolLit True) st)
         else if pp_defined ''OS_ANDROID'' st then
           and_then (pp_include e ''endian.h'' st) (\<lambda>st1.
             Inr (pp_define ''LEVELDB_IS_BIG_ENDIAN''
                    (Equals (Ident ''_BYTE_ORDER'') (Ident ''_BIG_ENDIAN'')) st1))
         else
           and_then (pp_include e ''endian.h'' st) (\<lambda>st1.
             Inr (pp_define ''LEVELDB_IS_BIG_ENDIAN''
                    (Equals (Ident ''__BYTE_ORDER'') (Ident ''__BIG_ENDIAN'')) st1)))
      else Inr st)"

text \<open>Lines 5-6 and 81: the include guard around the five blocks.\<close>

definition port_config :: "env \<Rightarrow> cpp_state \<Rightarrow> error + cpp_state" where
  "port_config e st =
     (if \<not> pp_defined ''STORAGE_LEVELDB_PORT_PORT_CONFIG_H_'' st then
        and_then (check_fdatasync e (pp_define ''STORAGE_LEVELDB_PORT_PORT_CONFIG_H_'' Empty st)) (\<lambda>s1.
        and_then (check_fullfsync e s1) (\<lambda>s2.
        and_then (check_crc32c s2) (\<lambda>s3.
        and_then (check_snappy s3) (\<lambda>s4.
        check_endianness e s4))))
      else Inr st)"

section \<open>Reading a resolved fact\<close>

text \<open>
  The value a macro has where C++ code uses it as a constant expression: identifiers
  that name macros are replaced, to a nesting depth of at most \<open>n\<close>; an identifier
  left over names nothing and the expression is ill-formed (\<open>None\<close>).  \<^verbatim>\<open>true\<close> and
  \<^verbatim>\<open>false\<close> count as 1 and 0, as the integral promotions make them.
\<close>

fun eval :: "nat \<Rightarrow> (string \<times> expr) list \<Rightarrow> expr \<Rightarrow> int option" where
  "eval n tbl Empty = None"
| "eval n tbl (IntLit i) = Some i"
| "eval n tbl (BoolLit b) = Some (if b then 1 else 0)"
| "eval 0 tbl (Ident x) = None"
| "eval (Suc n) tbl (Ident x) =
     (case map_of tbl x of None \<Rightarrow> None | Some b \<Rightarrow> eval n tbl b)"
| "eval n tbl (Equals a b) =
     (case eval n tbl a of
        None \<Rightarrow> None
      | Some u \<Rightarrow> (case eval n tbl b of
                     None \<Rightarrow> None
                   | Some v \<Rightarrow> Some (if u = v then 1 else 0)))"

definition fact_value :: "nat \<Rightarrow> cpp_state \<Rightarrow> string \<Rightarrow> int option" where
  "fact_value n st m = eval n (macros st) (Ident m)"

definition lookup :: "cpp_state \<Rightarrow> string \<Rightarrow> expr option" where
  "lookup st m = map_of (macros st) m"

section \<open>Sample build environments\<close>

definition bare :: cpp_state where
  "bare = \<lparr>macros = [], included = []\<rparr>"

text \<open>The state after \<^verbatim>\<open>-Dm\<close> or \<^verbatim>\<open>-Dm=b\<close> on the command line.\<close>

definition cmdline :: "(string \<times> expr) list \<Rightarrow> cpp_state" where
  "cmdline ds = \<lparr>macros = ds, included = []\<rparr>"

text \<open>
  A glibc system: \<^verbatim>\<open>fdatasync\<close> is a function that unistd.h declares, not a macro;
  fcntl.h has no \<^verbatim>\<open>F_FULLFSYNC\<close>; endian.h describes a little-endian machine.
\<close>

definition linux :: env where
  "linux = \<lparr>headers =
     [(''unistd.h'', \<lparr>hdr_macros = [(''_UNISTD_H'', IntLit 1)],
                      hdr_decls = [''fsync'', ''fdatasync'']\<rparr>),
      (''fcntl.h'', \<lparr>hdr_macros = [(''F_GETFL'', IntLit 3)], hdr_decls = [''fcntl'']\<rparr>),
      (''endian.h'', \<lparr>hdr_macros =
          [(''__LITTLE_ENDIAN'', IntLit 1234), (''__BIG_ENDIAN'', IntLit 4321),
           (''__BYTE_ORDER'', Ident ''__LITTLE_ENDIAN'')],
          hdr_decls = []\<rparr>)]\<rparr>"

text \<open>
  A Darwin system: fcntl.h defines \<^verbatim>\<open>F_FULLFSYNC\<close>, machine/endian.h the
  \<^verbatim>\<open>__DARWIN_*\<close> byte-order macros of a little-endian machine.
\<close>

definition darwin :: env where
  "darwin = \<lparr>headers =
     [(''unistd.h'', \<lparr>hdr_macros = [(''_UNISTD_H_'', Empty)], hdr_decls = [''fsync'']\<rparr>),
      (''fcntl.h'', \<lparr>hdr_macros = [(''F_GETFL'', IntLit 3), (''F_FULLFSYNC'', IntLit 51)],
                     hdr_decls = [''fcntl'']\<rparr>),
      (''machine/endian.h'', \<lparr>hdr_macros =
          [(''__DARWIN_LITTLE_ENDIAN'', IntLit 1234), (''__DARWIN_BIG_ENDIAN'', IntLit 4321),
           (''__DARWIN_BYTE_ORDER'', Ident ''__DARWIN_LITTLE_ENDIAN'')],
          hdr_decls = []\<rparr>)]\<rparr>"

text \<open>
  A big-endian FreeBSD machine: sys/endian.h gives \<^verbatim>\<open>_BYTE_ORDER\<close> the value of
  \<^verbatim>\<open>_BIG_ENDIAN\<close>.
\<close>

definition freebsd_be :: env where
  "freebsd_be = \<lparr>headers =
     [(''unistd.h'', \<lparr>hdr_macros = [(''_UNISTD_H_'', Empty)],
                      hdr_decls = [''fsync'', ''fdatasync'']\<rparr>),
      (''fcntl.h'', \<lparr>hdr_macros = [(''F_GETFL'', IntLit 3)], hdr_decls = [''fcntl'']\<rparr>),
      (''sys/types.h'', \<lparr>hdr_macros = [(''_SYS_TYPES_H_'', Empty)], hdr_decls = []\<rparr>),
      (''sys/endian.h'', \<lparr>hdr_macros =
          [(''_LITTLE_ENDIAN'', IntLit 1234), (''_BIG_ENDIAN'', IntLit 4321),
           (''_BYTE_ORDER'', Ident ''_BIG_ENDIAN'')],
          hdr_decls = []\<rparr>)]\<rparr>"

text \<open>
  An Apple SDK whose machine/endian.h has the unprefixed byte-order macros only, none
  of the \<^verbatim>\<open>__DARWIN_*\<close> ones.
\<close>

definition apple_plain :: env where
  "apple_plain = \<lparr>headers =
     [(''unistd.h'', \<lparr>hdr_macros = [(''_UNISTD_H_'', Empty)], hdr_decls = [''fsync'']\<rparr>),
      (''fcntl.h'', \<lparr>hdr_macros = [(''F_FULLFSYNC'', IntLit 51)], hdr_decls = [''fcntl'']\<rparr>),
      (''machine/endian.h'', \<lparr>hdr_macros =
          [(''LITTLE_ENDIAN'', IntLit 1234), (''BIG_ENDIAN'', IntLit 4321),
           (''BYTE_ORDER'', Ident ''LITTLE_ENDIAN'')],
          hdr_decls = []\<rparr>)]\<rparr>"

text \<open>
  A platform whose unistd.h brings \<^verbatim>\<open>F_FULLFSYNC\<close> with it, while fcntl.h is there
  without it.
\<close>

definition fullfsync_in_unistd :: env where
  "fullfsync_in_unistd = \<lparr>headers =
     [(''unistd.h'', \<lparr>hdr_macros = [(''F_FULLFSYNC'', IntLit 51)], hdr_decls = [''fsync'']\<rparr>),
      (''fcntl.h'', \<lparr>hdr_macros = [(''F_GETFL'', IntLit 3)], hdr_decls = [''fcntl'']\<rparr>),
      (''endian.h'', \<lparr>hdr_macros =
          [(''__LITTLE_ENDIAN'', IntLit 1234), (''__BIG_ENDIAN'', IntLit 4321),
           (''__BYTE_ORDER'', Ident ''__LITTLE_ENDIAN'')],
          hdr_decls = []\<rparr>)]\<rparr>"

text \<open>A platform with none of the headers the resolver asks for.\<close>

definition freestanding :: env where
  "freestanding = \<lparr>headers = []\<rparr>"

section \<open>Basic facts about the directives\<close>

lemma and_then_Inr [simp]: "and_then (Inr st) f = f st"
  by (simp add: and_then_def)

lemma and_then_Inl [simp]: "and_then (Inl err) f = Inl err"
  by (simp add: and_then_def)

lemma lookup_define [simp]:
  "lookup (pp_define m b st) k = (if k = m then Some b else lookup st k)"
  by (simp add: lookup_def pp_define_def)

lemma included_define [simp]: "included (pp_define m b st) = included st"
  by (simp add: pp_define_def)

lemma defined_lookup: "pp_defined m st = (lookup st m \<noteq> None)"
  by (simp add: pp_defined_def lookup_def)

lemma defined_define [simp]:
  "pp_defined k (pp_define m b st) = (k = m \<or> pp_defined k st)"
  by (simp add: defined_lookup)

lemma include_cases:
  "pp_include e h st =
     (if has_include e h then Inr (after_include e h st) else Inl (MissingHeader h))"
  by (auto simp: has_include_def pp_include_def header_macros_def after_include_def)

lemma lookup_after_include:
  "lookup (after_include e h st) k =
     (case map_of (header_macros e h) k of None \<Rightarrow> lookup st k | Some b \<Rightarrow> Some b)"
  by (simp add: after_include_def lookup_def map_add_def split: option.splits)

lemma defined_after_include:
  "pp_defined k (after_include e h st) =
     (map_of (header_macros e h) k \<noteq> None \<or> pp_defined k st)"
  by (auto simp: defined_lookup lookup_after_include split: option.splits)

lemma included_after_include [simp]: "included (after_include e h st) = h # included st"
  by (simp add: after_include_def)

lemma headers_avoidD: "headers_avoid e m \<Longrightarrow> map_of (header_macros e h) m = None"
proof (cases "map_of (headers e) h")
  case None
  then show ?thesis by (simp add: header_macros_def)
next
  case (Some f)
  assume av: "headers_avoid e m"
  from Some have "(h, f) \<in> set (headers e)" by (rule map_of_SomeD)
  with av have "map_of (hdr_macros f) m = None"
    by (auto simp: headers_avoid_def list_all_iff)
  with Some show ?thesis by (simp add: header_macros_def)
qed

lemma lookup_after_include_avoid:
  "headers_avoid e m \<Longrightarrow> lookup (after_include e h st) m = lookup st m"
  by (simp add: lookup_after_include headers_avoidD)

lemma and_then_InrE:
  assumes "and_then r f = Inr st'"
  obtains s where "r = Inr s" and "f s = Inr st'"
  using assms by (cases r) (auto simp: and_then_def)

section \<open>The two sync probes\<close>

text \<open>The two blocks in closed form: what each leaves behind, case by case.\<close>

lemma check_fdatasync_eq:
  "check_fdatasync e st =
     (if pp_defined ''HAVE_FDATASYNC'' st then Inr st
      else if has_include e ''unistd.h'' then
        Inr (pp_define ''HAVE_FDATASYNC''
               (IntLit (if pp_defined ''fdatasync'' (after_include e ''unistd.h'' st) then 1 else 0))
               (after_include e ''unistd.h'' st))
      else Inr (pp_define ''HAVE_FDATASYNC'' (IntLit 0) st))"
  by (simp add: check_fdatasync_def include_cases)

lemma check_fullfsync_eq:
  "check_fullfsync e st =
     (if pp_defined ''HAVE_FULLFSYNC'' st then Inr st
      else if has_include e ''fcntl.h'' then
        Inr (pp_define ''HAVE_FULLFSYNC''
               (IntLit (if pp_defined ''F_FULLFSYNC'' (after_include e ''fcntl.h'' st) then 1 else 0))
               (after_include e ''fcntl.h'' st))
      else Inr (pp_define ''HAVE_FULLFSYNC'' (IntLit 0) st))"
  by (simp add: check_fullfsync_def include_cases)

text \<open>
  C5.  Neither sync block can fail.  With \<^verbatim>\<open>HAVE_FDATASYNC\<close> not defined beforehand,
  its block defines it as \<^verbatim>\<open>1\<close> when unistd.h can be included and \<^verbatim>\<open>fdatasync\<close>
  is then found defined, and as \<^verbatim>\<open>0\<close> otherwise, in particular when unistd.h cannot
  be included.  The same holds for \<^verbatim>\<open>HAVE_FULLFSYNC\<close> with fcntl.h and
  \<^verbatim>\<open>F_FULLFSYNC\<close>.
\<close>

theorem sync_probes:
  "\<not> isl (check_fdatasync e st) \<and> \<not> isl (check_fullfsync e st)
   \<and> (\<not> pp_defined ''HAVE_FDATASYNC'' st \<longrightarrow>
        lookup (projr (check_fdatasync e st)) ''HAVE_FDATASYNC'' =
          Some (IntLit (if has_include e ''unistd.h''
                           \<and> pp_defined ''fdatasync'' (after_include e ''unistd.h'' st)
                        then 1 else 0)))
   \<and> (\<not> pp_defined ''HAVE_FULLFSYNC'' st \<longrightarrow>
        lookup (projr (check_fullfsync e st)) ''HAVE_FULLFSYNC'' =
          Some (IntLit (if has_include e ''fcntl.h''
                           \<and> pp_defined ''F_FULLFSYNC'' (after_include e ''fcntl.h'' st)
                        then 1 else 0)))"
  by (simp add: check_fdatasync_eq check_fullfsync_eq)

theorem sync_probes_witness:
  "\<not> isl (check_fdatasync darwin bare) \<and> \<not> isl (check_fullfsync darwin bare)
   \<and> \<not> pp_defined ''HAVE_FDATASYNC'' bare
   \<and> lookup (projr (check_fdatasync darwin bare)) ''HAVE_FDATASYNC'' = Some (IntLit 0)
   \<and> \<not> pp_defined ''HAVE_FULLFSYNC'' bare
   \<and> lookup (projr (check_fullfsync darwin bare)) ''HAVE_FULLFSYNC'' = Some (IntLit 1)"
  using sync_probes [of darwin bare]
  by (simp add: pp_defined_def bare_def has_include_def darwin_def after_include_def
      header_macros_def)

text \<open>
  C10.  With \<^verbatim>\<open>HAVE_FDATASYNC\<close> not defined beforehand and unistd.h includable,
  the block defines it as \<^verbatim>\<open>1\<close> exactly when \<^verbatim>\<open>fdatasync\<close> names a macro once
  unistd.h has been included (a macro of that header, or one defined earlier), and
  as \<^verbatim>\<open>0\<close> exactly when it does not.  A platform whose unistd.h declares the
  function \<^verbatim>\<open>fdatasync\<close> without defining a macro of that name gets \<^verbatim>\<open>0\<close>.
\<close>

theorem fdatasync_macro_only:
  assumes "\<not> pp_defined ''HAVE_FDATASYNC'' st" and "has_include e ''unistd.h''"
  shows "(lookup (projr (check_fdatasync e st)) ''HAVE_FDATASYNC'' = Some (IntLit 1))
           = pp_defined ''fdatasync'' (after_include e ''unistd.h'' st)
       \<and> (lookup (projr (check_fdatasync e st)) ''HAVE_FDATASYNC'' = Some (IntLit 0))
           = (\<not> pp_defined ''fdatasync'' (after_include e ''unistd.h'' st))
       \<and> pp_defined ''fdatasync'' (after_include e ''unistd.h'' st)
           = (map_of (header_macros e ''unistd.h'') ''fdatasync'' \<noteq> None
              \<or> pp_defined ''fdatasync'' st)
       \<and> (''fdatasync'' \<in> set (header_decls e ''unistd.h'')
            \<and> map_of (header_macros e ''unistd.h'') ''fdatasync'' = None
            \<and> \<not> pp_defined ''fdatasync'' st
          \<longrightarrow> lookup (projr (check_fdatasync e st)) ''HAVE_FDATASYNC'' = Some (IntLit 0))"
  using assms by (simp add: check_fdatasync_eq defined_after_include)

theorem fdatasync_macro_only_witness:
  "\<not> pp_defined ''HAVE_FDATASYNC'' bare \<and> has_include linux ''unistd.h''
   \<and> ''fdatasync'' \<in> set (header_decls linux ''unistd.h'')
   \<and> map_of (header_macros linux ''unistd.h'') ''fdatasync'' = None
   \<and> \<not> pp_defined ''fdatasync'' bare
   \<and> lookup (projr (check_fdatasync linux bare)) ''HAVE_FDATASYNC'' = Some (IntLit 0)"
  using fdatasync_macro_only [of bare linux]
  by (simp add: pp_defined_def bare_def has_include_def linux_def header_decls_def
      header_macros_def)

section \<open>Override precedence\<close>

text \<open>
  A macro that is defined beforehand and that no system header defines is still
  defined, with the same replacement list, after each block and after the header.
\<close>

lemma check_crc32c_keeps:
  "check_crc32c st = Inr st' \<Longrightarrow> lookup st m = Some v \<Longrightarrow> lookup st' m = Some v"
  by (auto simp: check_crc32c_def defined_lookup split: if_splits)

lemma check_snappy_keeps:
  "check_snappy st = Inr st' \<Longrightarrow> lookup st m = Some v \<Longrightarrow> lookup st' m = Some v"
  by (auto simp: check_snappy_def defined_lookup split: if_splits)

lemma check_fdatasync_keeps:
  "check_fdatasync e st = Inr st' \<Longrightarrow> headers_avoid e m \<Longrightarrow> lookup st m = Some v
   \<Longrightarrow> lookup st' m = Some v"
  by (auto simp: check_fdatasync_eq defined_lookup lookup_after_include_avoid split: if_splits)

lemma check_fullfsync_keeps:
  "check_fullfsync e st = Inr st' \<Longrightarrow> headers_avoid e m \<Longrightarrow> lookup st m = Some v
   \<Longrightarrow> lookup st' m = Some v"
  by (auto simp: check_fullfsync_eq defined_lookup lookup_after_include_avoid split: if_splits)

lemma check_endianness_keeps:
  "check_endianness e st = Inr st' \<Longrightarrow> headers_avoid e m \<Longrightarrow> lookup st m = Some v
   \<Longrightarrow> lookup st' m = Some v"
  unfolding check_endianness_def include_cases
  by (auto simp: defined_lookup lookup_after_include_avoid split: if_splits)

lemma port_config_keeps:
  assumes run: "port_config e st = Inr st'"
    and av: "headers_avoid e m"
    and pre: "lookup st m = Some v"
  shows "lookup st' m = Some v"
proof (cases "pp_defined ''STORAGE_LEVELDB_PORT_PORT_CONFIG_H_'' st")
  case True
  with run pre show ?thesis by (simp add: port_config_def)
next
  case False
  let ?s0 = "pp_define ''STORAGE_LEVELDB_PORT_PORT_CONFIG_H_'' Empty st"
  from False pre have p0: "lookup ?s0 m = Some v"
    by (auto simp: defined_lookup)
  from run False obtain s1 s2 s3 s4 where
    r1: "check_fdatasync e ?s0 = Inr s1" and r2: "check_fullfsync e s1 = Inr s2" and
    r3: "check_crc32c s2 = Inr s3" and r4: "check_snappy s3 = Inr s4" and
    r5: "check_endianness e s4 = Inr st'"
    by (auto simp: port_config_def elim!: and_then_InrE)
  from r1 av p0 have "lookup s1 m = Some v" by (rule check_fdatasync_keeps)
  with r2 av have "lookup s2 m = Some v" by (rule check_fullfsync_keeps)
  with r3 have "lookup s3 m = Some v" by (rule check_crc32c_keeps)
  with r4 have "lookup s4 m = Some v" by (rule check_snappy_keeps)
  with r5 av show ?thesis by (rule check_endianness_keeps)
qed

text \<open>
  C1.  When the macro of one of the five facts is defined before port_config.h is
  read, the block of that fact returns the state as it found it: no header is
  included, nothing is defined, whatever the platform's headers hold.  After the whole
  header the macro still has the replacement list it was given, provided no system
  header included by the other blocks redefines it.
\<close>

theorem override_precedence:
  assumes ov: "lookup st m = Some v"
  shows "(m = ''HAVE_FDATASYNC'' \<longrightarrow> check_fdatasync e st = Inr st)
       \<and> (m = ''HAVE_FULLFSYNC'' \<longrightarrow> check_fullfsync e st = Inr st)
       \<and> (m = ''HAVE_CRC32C'' \<longrightarrow> check_crc32c st = Inr st)
       \<and> (m = ''HAVE_SNAPPY'' \<longrightarrow> check_snappy st = Inr st)
       \<and> (m = ''LEVELDB_IS_BIG_ENDIAN'' \<longrightarrow> check_endianness e st = Inr st)
       \<and> (\<forall>st'. headers_avoid e m \<and> port_config e st = Inr st' \<longrightarrow> lookup st' m = Some v)"
proof -
  from ov have d: "pp_defined m st" by (simp add: defined_lookup)
  have 1: "m = ''HAVE_FDATASYNC'' \<longrightarrow> check_fdatasync e st = Inr st"
    using d by (auto simp: check_fdatasync_def)
  have 2: "m = ''HAVE_FULLFSYNC'' \<longrightarrow> check_fullfsync e st = Inr st"
    using d by (auto simp: check_fullfsync_def)
  have 3: "m = ''HAVE_CRC32C'' \<longrightarrow> check_crc32c st = Inr st"
    using d by (auto simp: check_crc32c_def)
  have 4: "m = ''HAVE_SNAPPY'' \<longrightarrow> check_snappy st = Inr st"
    using d by (auto simp: check_snappy_def)
  have 5: "m = ''LEVELDB_IS_BIG_ENDIAN'' \<longrightarrow> check_endianness e st = Inr st"
    using d by (auto simp: check_endianness_def)
  have 6: "\<forall>st'. headers_avoid e m \<and> port_config e st = Inr st' \<longrightarrow> lookup st' m = Some v"
    using ov port_config_keeps by blast
  from 1 2 3 4 5 6 show ?thesis by blast
qed

theorem override_precedence_witness:
  "lookup (cmdline [(''HAVE_FULLFSYNC'', IntLit 1)]) ''HAVE_FULLFSYNC'' = Some (IntLit 1)
   \<and> check_fullfsync linux (cmdline [(''HAVE_FULLFSYNC'', IntLit 1)])
       = Inr (cmdline [(''HAVE_FULLFSYNC'', IntLit 1)])
   \<and> headers_avoid linux ''HAVE_FULLFSYNC''
   \<and> \<not> isl (port_config linux (cmdline [(''HAVE_FULLFSYNC'', IntLit 1)]))
   \<and> lookup (projr (port_config linux (cmdline [(''HAVE_FULLFSYNC'', IntLit 1)])))
        ''HAVE_FULLFSYNC'' = Some (IntLit 1)"
proof -
  let ?st = "cmdline [(''HAVE_FULLFSYNC'', IntLit 1)]"
  have ov: "lookup ?st ''HAVE_FULLFSYNC'' = Some (IntLit 1)"
    by (simp add: lookup_def cmdline_def)
  have av: "headers_avoid linux ''HAVE_FULLFSYNC''"
    by (simp add: headers_avoid_def linux_def)
  have run: "\<not> isl (port_config linux ?st)"
    by (simp add: port_config_def check_fdatasync_eq check_fullfsync_eq check_crc32c_def
        check_snappy_def check_endianness_def include_cases has_include_def linux_def
        pp_defined_def pp_define_def after_include_def header_macros_def cmdline_def)
  then have r: "port_config linux ?st = Inr (projr (port_config linux ?st))"
    by (cases "port_config linux ?st") simp_all
  note th = override_precedence [OF ov, of linux]
  from th have "''HAVE_FULLFSYNC'' = ''HAVE_FULLFSYNC'' \<longrightarrow> check_fullfsync linux ?st = Inr ?st"
    by (rule conjunct1 [OF conjunct2])
  then have skip: "check_fullfsync linux ?st = Inr ?st"
    by (rule mp) (rule refl)
  note rest = th [THEN conjunct2, THEN conjunct2, THEN conjunct2, THEN conjunct2, THEN conjunct2]
  from rest have "headers_avoid linux ''HAVE_FULLFSYNC''
      \<and> port_config linux ?st = Inr (projr (port_config linux ?st))
      \<longrightarrow> lookup (projr (port_config linux ?st)) ''HAVE_FULLFSYNC'' = Some (IntLit 1)"
    by (rule spec)
  then have kept: "lookup (projr (port_config linux ?st)) ''HAVE_FULLFSYNC'' = Some (IntLit 1)"
    by (rule mp) (rule conjI [OF av r])
  show ?thesis
    by (rule conjI [OF ov conjI [OF skip conjI [OF av conjI [OF run kept]]]])
qed

section \<open>Byte order\<close>

lemma eval_macro_equals:
  assumes "lookup st m = Some (Equals (Ident a) (Ident b))"
  shows "fact_value (Suc n) st m =
           (case fact_value n st a of
              None \<Rightarrow> None
            | Some u \<Rightarrow> (case fact_value n st b of
                           None \<Rightarrow> None
                         | Some v \<Rightarrow> Some (if u = v then 1 else 0)))"
  using assms by (simp add: fact_value_def lookup_def split: option.splits)

text \<open>
  C2, as the header has it.  When \<^verbatim>\<open>LEVELDB_IS_BIG_ENDIAN\<close> is not defined
  beforehand and none of the platform macros of the chain is defined, the last arm
  is taken: endian.h is included and the macro is defined as
  \<^verbatim>\<open>(__BYTE_ORDER == __BIG_ENDIAN)\<close>.  The block fails only when endian.h cannot be
  included, and the error is that of the missing file.
\<close>

theorem generic_fallback:
  assumes "\<not> pp_defined ''LEVELDB_IS_BIG_ENDIAN'' st"
    and "\<not> pp_defined ''OS_MACOSX'' st" and "\<not> pp_defined ''OS_IOS'' st"
    and "\<not> pp_defined ''OS_SOLARIS'' st"
    and "\<not> pp_defined ''OS_FREEBSD'' st" and "\<not> pp_defined ''OS_OPENBSD'' st"
    and "\<not> pp_defined ''OS_NETBSD'' st" and "\<not> pp_defined ''OS_DRAGONFLYBSD'' st"
    and "\<not> pp_defined ''OS_HPUX'' st" and "\<not> pp_defined ''OS_ANDROID'' st"
  shows "check_endianness e st =
           (if has_include e ''endian.h''
            then Inr (pp_define ''LEVELDB_IS_BIG_ENDIAN''
                        (Equals (Ident ''__BYTE_ORDER'') (Ident ''__BIG_ENDIAN''))
                        (after_include e ''endian.h'' st))
            else Inl (MissingHeader ''endian.h''))"
  using assms by (simp add: check_endianness_def include_cases)

lemma bare_undefined: "\<not> pp_defined m bare"
  by (simp add: pp_defined_def bare_def)

theorem generic_fallback_witness:
  "\<not> pp_defined ''LEVELDB_IS_BIG_ENDIAN'' bare
   \<and> \<not> pp_defined ''OS_MACOSX'' bare \<and> \<not> pp_defined ''OS_IOS'' bare
   \<and> \<not> pp_defined ''OS_SOLARIS'' bare
   \<and> \<not> pp_defined ''OS_FREEBSD'' bare \<and> \<not> pp_defined ''OS_OPENBSD'' bare
   \<and> \<not> pp_defined ''OS_NETBSD'' bare \<and> \<not> pp_defined ''OS_DRAGONFLYBSD'' bare
   \<and> \<not> pp_defined ''OS_HPUX'' bare \<and> \<not> pp_defined ''OS_ANDROID'' bare
   \<and> check_endianness freestanding bare = Inl (MissingHeader ''endian.h'')
   \<and> check_endianness linux bare =
        Inr (pp_define ''LEVELDB_IS_BIG_ENDIAN''
               (Equals (Ident ''__BYTE_ORDER'') (Ident ''__BIG_ENDIAN''))
               (after_include linux ''endian.h'' bare))"
proof -
  note u = bare_undefined
  have no: "\<not> has_include freestanding ''endian.h''"
    by (simp add: has_include_def freestanding_def)
  have yes: "has_include linux ''endian.h''"
    by (simp add: has_include_def linux_def)
  from generic_fallback [OF u u u u u u u u u u, of freestanding] no
  have a: "check_endianness freestanding bare = Inl (MissingHeader ''endian.h'')" by simp
  from generic_fallback [OF u u u u u u u u u u, of linux] yes
  have b: "check_endianness linux bare =
        Inr (pp_define ''LEVELDB_IS_BIG_ENDIAN''
               (Equals (Ident ''__BYTE_ORDER'') (Ident ''__BIG_ENDIAN''))
               (after_include linux ''endian.h'' bare))" by simp
  from u a b show ?thesis by simp
qed

text \<open>The whole header on a glibc system with nothing on the command line.\<close>

lemma port_config_linux_bare:
  "port_config linux bare =
     Inr \<lparr>macros =
            [(''LEVELDB_IS_BIG_ENDIAN'', Equals (Ident ''__BYTE_ORDER'') (Ident ''__BIG_ENDIAN'')),
             (''__LITTLE_ENDIAN'', IntLit 1234), (''__BIG_ENDIAN'', IntLit 4321),
             (''__BYTE_ORDER'', Ident ''__LITTLE_ENDIAN''),
             (''HAVE_SNAPPY'', IntLit 1), (''HAVE_CRC32C'', IntLit 0),
             (''HAVE_FULLFSYNC'', IntLit 0), (''F_GETFL'', IntLit 3),
             (''HAVE_FDATASYNC'', IntLit 0), (''_UNISTD_H'', IntLit 1),
             (''STORAGE_LEVELDB_PORT_PORT_CONFIG_H_'', Empty)],
          included = [''endian.h'', ''fcntl.h'', ''unistd.h'']\<rparr>"
  by (simp add: port_config_def check_fdatasync_eq check_fullfsync_eq check_crc32c_def
        check_snappy_def check_endianness_def include_cases has_include_def linux_def
        pp_defined_def pp_define_def after_include_def header_macros_def bare_def)

text \<open>
  C2 as the specification words it does not hold: with no platform macro and no
  override, on a glibc system, the header goes through and the byte order is resolved
  (to little-endian) by the generic arm.
\<close>

theorem unrecognized_platform_resolves:
  "\<not> isl (port_config linux bare)
   \<and> lookup (projr (port_config linux bare)) ''LEVELDB_IS_BIG_ENDIAN''
       = Some (Equals (Ident ''__BYTE_ORDER'') (Ident ''__BIG_ENDIAN''))
   \<and> fact_value 3 (projr (port_config linux bare)) ''LEVELDB_IS_BIG_ENDIAN'' = Some 0"
  by (simp add: port_config_linux_bare lookup_def fact_value_def numeral_3_eq_3)

text \<open>The byte-order header of the SDK without \<^verbatim>\<open>__DARWIN_*\<close> macros.\<close>

lemma apple_plain_endian_h:
  "has_include apple_plain ''machine/endian.h''
   \<and> header_macros apple_plain ''machine/endian.h'' =
       [(''LITTLE_ENDIAN'', IntLit 1234), (''BIG_ENDIAN'', IntLit 4321),
        (''BYTE_ORDER'', Ident ''LITTLE_ENDIAN'')]"
  by (simp add: has_include_def header_macros_def apple_plain_def)


text \<open>
  C8.  On FreeBSD, OpenBSD, NetBSD or DragonFlyBSD (the platform macro defined, none
  of the macros of the two arms tried earlier), with no override and with sys/types.h
  and sys/endian.h present, the block defines \<^verbatim>\<open>LEVELDB_IS_BIG_ENDIAN\<close> as
  \<^verbatim>\<open>(_BYTE_ORDER == _BIG_ENDIAN)\<close>.  Read as a constant expression the macro is the
  comparison of the values of the two symbols, and it is true (1) whenever the two
  have the same value.
\<close>

theorem bsd_endianness:
  assumes nov: "\<not> pp_defined ''LEVELDB_IS_BIG_ENDIAN'' st"
    and bsd: "pp_defined ''OS_FREEBSD'' st \<or> pp_defined ''OS_OPENBSD'' st \<or>
              pp_defined ''OS_NETBSD'' st \<or> pp_defined ''OS_DRAGONFLYBSD'' st"
    and other: "\<not> pp_defined ''OS_MACOSX'' st" "\<not> pp_defined ''OS_IOS'' st"
               "\<not> pp_defined ''OS_SOLARIS'' st"
    and hdrs: "has_include e ''sys/types.h''" "has_include e ''sys/endian.h''"
  shows "check_endianness e st =
           Inr (pp_define ''LEVELDB_IS_BIG_ENDIAN''
                  (Equals (Ident ''_BYTE_ORDER'') (Ident ''_BIG_ENDIAN''))
                  (after_include e ''sys/endian.h'' (after_include e ''sys/types.h'' st)))
       \<and> fact_value (Suc n) (projr (check_endianness e st)) ''LEVELDB_IS_BIG_ENDIAN'' =
           (case fact_value n (projr (check_endianness e st)) ''_BYTE_ORDER'' of
              None \<Rightarrow> None
            | Some u \<Rightarrow>
                (case fact_value n (projr (check_endianness e st)) ''_BIG_ENDIAN'' of
                   None \<Rightarrow> None
                 | Some v \<Rightarrow> Some (if u = v then 1 else 0)))
       \<and> (\<forall>v. fact_value n (projr (check_endianness e st)) ''_BYTE_ORDER'' = Some v
              \<and> fact_value n (projr (check_endianness e st)) ''_BIG_ENDIAN'' = Some v
            \<longrightarrow> fact_value (Suc n) (projr (check_endianness e st)) ''LEVELDB_IS_BIG_ENDIAN''
                  = Some 1)"
proof -
  let ?r = "pp_define ''LEVELDB_IS_BIG_ENDIAN''
              (Equals (Ident ''_BYTE_ORDER'') (Ident ''_BIG_ENDIAN''))
              (after_include e ''sys/endian.h'' (after_include e ''sys/types.h'' st))"
  from bsd have run: "check_endianness e st = Inr ?r"
    using nov other hdrs by (simp add: check_endianness_def include_cases)
  have "lookup ?r ''LEVELDB_IS_BIG_ENDIAN''
          = Some (Equals (Ident ''_BYTE_ORDER'') (Ident ''_BIG_ENDIAN''))"
    by simp
  then have ev: "fact_value (Suc n) ?r ''LEVELDB_IS_BIG_ENDIAN'' =
           (case fact_value n ?r ''_BYTE_ORDER'' of
              None \<Rightarrow> None
            | Some u \<Rightarrow>
                (case fact_value n ?r ''_BIG_ENDIAN'' of
                   None \<Rightarrow> None
                 | Some v \<Rightarrow> Some (if u = v then 1 else 0)))"
    by (rule eval_macro_equals)
  then have eq: "\<forall>v. fact_value n ?r ''_BYTE_ORDER'' = Some v
              \<and> fact_value n ?r ''_BIG_ENDIAN'' = Some v
            \<longrightarrow> fact_value (Suc n) ?r ''LEVELDB_IS_BIG_ENDIAN'' = Some 1"
    by simp
  from run have p: "projr (check_endianness e st) = ?r" by simp
  show ?thesis unfolding p using run ev eq by (intro conjI)
qed

text \<open>The block on a big-endian FreeBSD machine, built with \<^verbatim>\<open>-DOS_FREEBSD\<close>.\<close>

lemma freebsd_be_run:
  "check_endianness freebsd_be (cmdline [(''OS_FREEBSD'', IntLit 1)]) =
     Inr \<lparr>macros =
            [(''LEVELDB_IS_BIG_ENDIAN'', Equals (Ident ''_BYTE_ORDER'') (Ident ''_BIG_ENDIAN'')),
             (''_LITTLE_ENDIAN'', IntLit 1234), (''_BIG_ENDIAN'', IntLit 4321),
             (''_BYTE_ORDER'', Ident ''_BIG_ENDIAN''), (''_SYS_TYPES_H_'', Empty),
             (''OS_FREEBSD'', IntLit 1)],
          included = [''sys/endian.h'', ''sys/types.h'']\<rparr>"
  by (simp add: check_endianness_def include_cases has_include_def freebsd_be_def
      after_include_def header_macros_def pp_defined_def pp_define_def cmdline_def)

theorem bsd_endianness_witness:
  "\<not> pp_defined ''LEVELDB_IS_BIG_ENDIAN'' (cmdline [(''OS_FREEBSD'', IntLit 1)])
   \<and> pp_defined ''OS_FREEBSD'' (cmdline [(''OS_FREEBSD'', IntLit 1)])
   \<and> \<not> pp_defined ''OS_MACOSX'' (cmdline [(''OS_FREEBSD'', IntLit 1)])
   \<and> \<not> pp_defined ''OS_IOS'' (cmdline [(''OS_FREEBSD'', IntLit 1)])
   \<and> \<not> pp_defined ''OS_SOLARIS'' (cmdline [(''OS_FREEBSD'', IntLit 1)])
   \<and> has_include freebsd_be ''sys/types.h'' \<and> has_include freebsd_be ''sys/endian.h''
   \<and> fact_value 2 (projr (check_endianness freebsd_be (cmdline [(''OS_FREEBSD'', IntLit 1)])))
        ''_BYTE_ORDER'' = Some 4321
   \<and> fact_value 2 (projr (check_endianness freebsd_be (cmdline [(''OS_FREEBSD'', IntLit 1)])))
        ''_BIG_ENDIAN'' = Some 4321
   \<and> fact_value (Suc 2) (projr (check_endianness freebsd_be (cmdline [(''OS_FREEBSD'', IntLit 1)])))
        ''LEVELDB_IS_BIG_ENDIAN'' = Some 1"
proof -
  let ?st = "cmdline [(''OS_FREEBSD'', IntLit 1)]"
  let ?r = "projr (check_endianness freebsd_be ?st)"
  have a: "\<not> pp_defined ''LEVELDB_IS_BIG_ENDIAN'' ?st"
    and b: "pp_defined ''OS_FREEBSD'' ?st"
    and c: "\<not> pp_defined ''OS_MACOSX'' ?st" "\<not> pp_defined ''OS_IOS'' ?st"
           "\<not> pp_defined ''OS_SOLARIS'' ?st"
    by (simp_all add: pp_defined_def cmdline_def)
  have h: "has_include freebsd_be ''sys/types.h''" "has_include freebsd_be ''sys/endian.h''"
    by (simp_all add: has_include_def freebsd_be_def)
  have bo: "fact_value 2 ?r ''_BYTE_ORDER'' = Some 4321"
    by (simp add: freebsd_be_run fact_value_def numeral_2_eq_2)
  have be: "fact_value 2 ?r ''_BIG_ENDIAN'' = Some 4321"
    by (simp add: freebsd_be_run fact_value_def numeral_2_eq_2)
  note th = bsd_endianness [OF a disjI1 [OF b] c h, of 2]
  from th have "fact_value 2 ?r ''_BYTE_ORDER'' = Some 4321
              \<and> fact_value 2 ?r ''_BIG_ENDIAN'' = Some 4321
            \<longrightarrow> fact_value (Suc 2) ?r ''LEVELDB_IS_BIG_ENDIAN'' = Some 1"
    by (rule spec [OF conjunct2 [OF conjunct2]])
  then have v: "fact_value (Suc 2) ?r ''LEVELDB_IS_BIG_ENDIAN'' = Some 1"
    by (rule mp) (rule conjI [OF bo be])
  show ?thesis
    by (intro conjI a b c h bo be v)
qed

section \<open>What the header leaves defined\<close>

text \<open>Nothing is ever undefined: a macro defined before a block is defined after it.\<close>

lemma check_fdatasync_mono:
  "check_fdatasync e st = Inr st' \<Longrightarrow> pp_defined m st \<Longrightarrow> pp_defined m st'"
  by (auto simp: check_fdatasync_eq defined_after_include split: if_splits)

lemma check_fullfsync_mono:
  "check_fullfsync e st = Inr st' \<Longrightarrow> pp_defined m st \<Longrightarrow> pp_defined m st'"
  by (auto simp: check_fullfsync_eq defined_after_include split: if_splits)

lemma check_crc32c_mono:
  "check_crc32c st = Inr st' \<Longrightarrow> pp_defined m st \<Longrightarrow> pp_defined m st'"
  by (auto simp: check_crc32c_def split: if_splits)

lemma check_snappy_mono:
  "check_snappy st = Inr st' \<Longrightarrow> pp_defined m st \<Longrightarrow> pp_defined m st'"
  by (auto simp: check_snappy_def split: if_splits)

lemma check_endianness_mono:
  "check_endianness e st = Inr st' \<Longrightarrow> pp_defined m st \<Longrightarrow> pp_defined m st'"
  unfolding check_endianness_def include_cases
  by (auto simp: defined_after_include split: if_splits)

text \<open>Each block leaves its own macro defined; the last one with one exception.\<close>

lemma check_fdatasync_sets:
  "check_fdatasync e st = Inr st' \<Longrightarrow> pp_defined ''HAVE_FDATASYNC'' st'"
  by (auto simp: check_fdatasync_eq split: if_splits)

lemma check_fullfsync_sets:
  "check_fullfsync e st = Inr st' \<Longrightarrow> pp_defined ''HAVE_FULLFSYNC'' st'"
  by (auto simp: check_fullfsync_eq split: if_splits)

lemma check_crc32c_sets:
  "check_crc32c st = Inr st' \<Longrightarrow> pp_defined ''HAVE_CRC32C'' st'"
  by (auto simp: check_crc32c_def split: if_splits)

lemma check_snappy_sets:
  "check_snappy st = Inr st' \<Longrightarrow> pp_defined ''HAVE_SNAPPY'' st'"
  by (auto simp: check_snappy_def split: if_splits)

lemma check_endianness_sets:
  assumes "check_endianness e st = Inr st'"
    and "\<not> pp_defined ''LEVELDB_IS_BIG_ENDIAN'' st'"
  shows "(pp_defined ''OS_MACOSX'' st' \<or> pp_defined ''OS_IOS'' st')
       \<and> \<not> (pp_defined ''__DARWIN_BIG_ENDIAN'' st' \<and> pp_defined ''__DARWIN_BYTE_ORDER'' st')
       \<and> ''machine/endian.h'' \<in> set (included st')"
  using assms unfolding check_endianness_def include_cases
  by (auto simp: defined_after_include split: if_splits)

text \<open>The whole header for macOS against the SDK without \<^verbatim>\<open>__DARWIN_*\<close> macros.\<close>

lemma port_config_apple_plain:
  "port_config apple_plain (cmdline [(''OS_MACOSX'', IntLit 1)]) =
     Inr \<lparr>macros =
            [(''LITTLE_ENDIAN'', IntLit 1234), (''BIG_ENDIAN'', IntLit 4321),
             (''BYTE_ORDER'', Ident ''LITTLE_ENDIAN''),
             (''HAVE_SNAPPY'', IntLit 1), (''HAVE_CRC32C'', IntLit 0),
             (''HAVE_FULLFSYNC'', IntLit 1), (''F_FULLFSYNC'', IntLit 51),
             (''HAVE_FDATASYNC'', IntLit 0), (''_UNISTD_H_'', Empty),
             (''STORAGE_LEVELDB_PORT_PORT_CONFIG_H_'', Empty), (''OS_MACOSX'', IntLit 1)],
          included = [''machine/endian.h'', ''fcntl.h'', ''unistd.h'']\<rparr>"
  by (simp add: port_config_def check_fdatasync_eq check_fullfsync_eq check_crc32c_def
        check_snappy_def check_endianness_def include_cases has_include_def apple_plain_def
        pp_defined_def pp_define_def after_include_def header_macros_def cmdline_def)

section \<open>Idempotence and independence\<close>

text \<open>Once read, the header has its guard defined, and a second read does nothing.\<close>

lemma port_config_guarded:
  assumes run: "port_config e st = Inr st'"
  shows "pp_defined ''STORAGE_LEVELDB_PORT_PORT_CONFIG_H_'' st'"
proof (cases "pp_defined ''STORAGE_LEVELDB_PORT_PORT_CONFIG_H_'' st")
  case True
  with run show ?thesis by (simp add: port_config_def)
next
  case False
  let ?s0 = "pp_define ''STORAGE_LEVELDB_PORT_PORT_CONFIG_H_'' Empty st"
  from run False obtain s1 s2 s3 s4 where
    r1: "check_fdatasync e ?s0 = Inr s1" and r2: "check_fullfsync e s1 = Inr s2"
    and r3: "check_crc32c s2 = Inr s3" and r4: "check_snappy s3 = Inr s4"
    and r5: "check_endianness e s4 = Inr st'"
    by (auto simp: port_config_def elim!: and_then_InrE)
  have "pp_defined ''STORAGE_LEVELDB_PORT_PORT_CONFIG_H_'' ?s0" by simp
  with r1 have "pp_defined ''STORAGE_LEVELDB_PORT_PORT_CONFIG_H_'' s1"
    by (rule check_fdatasync_mono)
  with r2 have "pp_defined ''STORAGE_LEVELDB_PORT_PORT_CONFIG_H_'' s2"
    by (rule check_fullfsync_mono)
  with r3 have "pp_defined ''STORAGE_LEVELDB_PORT_PORT_CONFIG_H_'' s3"
    by (rule check_crc32c_mono)
  with r4 have "pp_defined ''STORAGE_LEVELDB_PORT_PORT_CONFIG_H_'' s4"
    by (rule check_snappy_mono)
  with r5 show ?thesis by (rule check_endianness_mono)
qed

lemma port_config_idem:
  "port_config e st = Inr st' \<Longrightarrow> port_config e2 st' = Inr st'"
  by (drule port_config_guarded) (simp add: port_config_def)

text \<open>The value each sync block leaves, as a function of what the block reads.\<close>

lemma fdatasync_value:
  "\<not> isl (check_fdatasync e st)
   \<and> lookup (projr (check_fdatasync e st)) ''HAVE_FDATASYNC'' =
     (case lookup st ''HAVE_FDATASYNC'' of
        Some v \<Rightarrow> Some v
      | None \<Rightarrow> Some (IntLit (if has_include e ''unistd.h''
                                   \<and> pp_defined ''fdatasync'' (after_include e ''unistd.h'' st)
                                then 1 else 0)))"
  by (auto simp: check_fdatasync_eq defined_lookup split: option.splits)

lemma fullfsync_value:
  "\<not> isl (check_fullfsync e st)
   \<and> lookup (projr (check_fullfsync e st)) ''HAVE_FULLFSYNC'' =
     (case lookup st ''HAVE_FULLFSYNC'' of
        Some v \<Rightarrow> Some v
      | None \<Rightarrow> Some (IntLit (if has_include e ''fcntl.h''
                                   \<and> pp_defined ''F_FULLFSYNC'' (after_include e ''fcntl.h'' st)
                                then 1 else 0)))"
  by (auto simp: check_fullfsync_eq defined_lookup split: option.splits)

lemma crc32c_value:
  "\<not> isl (check_crc32c st)
   \<and> lookup (projr (check_crc32c st)) ''HAVE_CRC32C'' =
     (case lookup st ''HAVE_CRC32C'' of Some v \<Rightarrow> Some v | None \<Rightarrow> Some (IntLit 0))"
  by (auto simp: check_crc32c_def defined_lookup split: option.splits)

lemma snappy_value:
  "\<not> isl (check_snappy st)
   \<and> lookup (projr (check_snappy st)) ''HAVE_SNAPPY'' =
     (case lookup st ''HAVE_SNAPPY'' of Some v \<Rightarrow> Some v | None \<Rightarrow> Some (IntLit 1))"
  by (auto simp: check_snappy_def defined_lookup split: option.splits)

text \<open>
  A sync block changes nothing but its own macro and what its header defines.
\<close>

lemma check_fdatasync_other:
  assumes "check_fdatasync e st = Inr st'"
    and "map_of (header_macros e ''unistd.h'') k = None" and "k \<noteq> ''HAVE_FDATASYNC''"
  shows "lookup st' k = lookup st k"
  using assms
  by (auto simp: check_fdatasync_eq lookup_after_include split: if_splits)

lemma check_fullfsync_other:
  assumes "check_fullfsync e st = Inr st'"
    and "map_of (header_macros e ''fcntl.h'') k = None" and "k \<noteq> ''HAVE_FULLFSYNC''"
  shows "lookup st' k = lookup st k"
  using assms
  by (auto simp: check_fullfsync_eq lookup_after_include split: if_splits)

lemma check_fdatasync_total: "\<exists>st'. check_fdatasync e st = Inr st'"
  by (simp add: check_fdatasync_eq)

lemma check_fullfsync_total: "\<exists>st'. check_fullfsync e st = Inr st'"
  by (simp add: check_fullfsync_eq)

text \<open>The value of a sync block depends on the state through three things only.\<close>

lemma fdatasync_cong:
  assumes ov: "lookup s ''HAVE_FDATASYNC'' = lookup t ''HAVE_FDATASYNC''"
    and sym: "pp_defined ''fdatasync'' s = pp_defined ''fdatasync'' t"
  shows "lookup (projr (check_fdatasync e s)) ''HAVE_FDATASYNC''
       = lookup (projr (check_fdatasync e t)) ''HAVE_FDATASYNC''"
proof -
  from sym
  have eq: "pp_defined ''fdatasync'' (after_include e ''unistd.h'' s)
          = pp_defined ''fdatasync'' (after_include e ''unistd.h'' t)"
    by (simp add: defined_after_include)
  have "lookup (projr (check_fdatasync e s)) ''HAVE_FDATASYNC'' =
     (case lookup s ''HAVE_FDATASYNC'' of
        Some v \<Rightarrow> Some v
      | None \<Rightarrow> Some (IntLit (if has_include e ''unistd.h''
                                   \<and> pp_defined ''fdatasync'' (after_include e ''unistd.h'' s)
                                then 1 else 0)))"
    by (rule fdatasync_value [THEN conjunct2])
  also have "\<dots> =
     (case lookup t ''HAVE_FDATASYNC'' of
        Some v \<Rightarrow> Some v
      | None \<Rightarrow> Some (IntLit (if has_include e ''unistd.h''
                                   \<and> pp_defined ''fdatasync'' (after_include e ''unistd.h'' t)
                                then 1 else 0)))"
    unfolding ov eq ..
  also have "\<dots> = lookup (projr (check_fdatasync e t)) ''HAVE_FDATASYNC''"
    by (rule fdatasync_value [THEN conjunct2, symmetric])
  finally show ?thesis .
qed

lemma fullfsync_cong:
  assumes ov: "lookup s ''HAVE_FULLFSYNC'' = lookup t ''HAVE_FULLFSYNC''"
    and sym: "pp_defined ''F_FULLFSYNC'' s = pp_defined ''F_FULLFSYNC'' t"
  shows "lookup (projr (check_fullfsync e s)) ''HAVE_FULLFSYNC''
       = lookup (projr (check_fullfsync e t)) ''HAVE_FULLFSYNC''"
proof -
  from sym
  have eq: "pp_defined ''F_FULLFSYNC'' (after_include e ''fcntl.h'' s)
          = pp_defined ''F_FULLFSYNC'' (after_include e ''fcntl.h'' t)"
    by (simp add: defined_after_include)
  have "lookup (projr (check_fullfsync e s)) ''HAVE_FULLFSYNC'' =
     (case lookup s ''HAVE_FULLFSYNC'' of
        Some v \<Rightarrow> Some v
      | None \<Rightarrow> Some (IntLit (if has_include e ''fcntl.h''
                                   \<and> pp_defined ''F_FULLFSYNC'' (after_include e ''fcntl.h'' s)
                                then 1 else 0)))"
    by (rule fullfsync_value [THEN conjunct2])
  also have "\<dots> =
     (case lookup t ''HAVE_FULLFSYNC'' of
        Some v \<Rightarrow> Some v
      | None \<Rightarrow> Some (IntLit (if has_include e ''fcntl.h''
                                   \<and> pp_defined ''F_FULLFSYNC'' (after_include e ''fcntl.h'' t)
                                then 1 else 0)))"
    unfolding ov eq ..
  also have "\<dots> = lookup (projr (check_fullfsync e t)) ''HAVE_FULLFSYNC''"
    by (rule fullfsync_value [THEN conjunct2, symmetric])
  finally show ?thesis .
qed

text \<open>
  The blocks share one macro table, so a block can see what the header of the other
  one defines.  When unistd.h defines neither \<^verbatim>\<open>F_FULLFSYNC\<close> nor
  \<^verbatim>\<open>HAVE_FULLFSYNC\<close>, the fullfsync block gives the same value alone, after the
  fdatasync block, and before it; and the other way round for fcntl.h.
\<close>

lemma fullfsync_after_fdatasync:
  assumes u1: "map_of (header_macros e ''unistd.h'') ''F_FULLFSYNC'' = None"
    and u2: "map_of (header_macros e ''unistd.h'') ''HAVE_FULLFSYNC'' = None"
  shows "\<not> isl (and_then (check_fdatasync e st) (check_fullfsync e))
       \<and> lookup (projr (and_then (check_fdatasync e st) (check_fullfsync e))) ''HAVE_FULLFSYNC''
         = lookup (projr (check_fullfsync e st)) ''HAVE_FULLFSYNC''
       \<and> lookup (projr (and_then (check_fullfsync e st) (check_fdatasync e))) ''HAVE_FULLFSYNC''
         = lookup (projr (check_fullfsync e st)) ''HAVE_FULLFSYNC''"
proof -
  obtain s1 where a: "check_fdatasync e st = Inr s1"
    using check_fdatasync_total by blast
  obtain s2 where b: "check_fullfsync e st = Inr s2"
    using check_fullfsync_total by blast
  obtain s21 where ba: "check_fdatasync e s2 = Inr s21"
    using check_fdatasync_total by blast
  from a u2 have k1: "lookup s1 ''HAVE_FULLFSYNC'' = lookup st ''HAVE_FULLFSYNC''"
    by (rule check_fdatasync_other) simp
  from a u1 have "lookup s1 ''F_FULLFSYNC'' = lookup st ''F_FULLFSYNC''"
    by (rule check_fdatasync_other) simp
  then have k2: "pp_defined ''F_FULLFSYNC'' s1 = pp_defined ''F_FULLFSYNC'' st"
    by (simp add: defined_lookup)
  from k1 k2
  have c: "lookup (projr (check_fullfsync e s1)) ''HAVE_FULLFSYNC''
         = lookup (projr (check_fullfsync e st)) ''HAVE_FULLFSYNC''"
    by (rule fullfsync_cong)
  from ba u2 have d: "lookup s21 ''HAVE_FULLFSYNC'' = lookup s2 ''HAVE_FULLFSYNC''"
    by (rule check_fdatasync_other) simp
  have n: "\<not> isl (check_fullfsync e s1)" by (simp add: fullfsync_value)
  from a b ba c d n show ?thesis by simp
qed

lemma fdatasync_after_fullfsync:
  assumes u1: "map_of (header_macros e ''fcntl.h'') ''fdatasync'' = None"
    and u2: "map_of (header_macros e ''fcntl.h'') ''HAVE_FDATASYNC'' = None"
  shows "\<not> isl (and_then (check_fullfsync e st) (check_fdatasync e))
       \<and> lookup (projr (and_then (check_fullfsync e st) (check_fdatasync e))) ''HAVE_FDATASYNC''
         = lookup (projr (check_fdatasync e st)) ''HAVE_FDATASYNC''
       \<and> lookup (projr (and_then (check_fdatasync e st) (check_fullfsync e))) ''HAVE_FDATASYNC''
         = lookup (projr (check_fdatasync e st)) ''HAVE_FDATASYNC''"
proof -
  obtain s1 where a: "check_fullfsync e st = Inr s1"
    using check_fullfsync_total by blast
  obtain s2 where b: "check_fdatasync e st = Inr s2"
    using check_fdatasync_total by blast
  obtain s21 where ba: "check_fullfsync e s2 = Inr s21"
    using check_fullfsync_total by blast
  from a u2 have k1: "lookup s1 ''HAVE_FDATASYNC'' = lookup st ''HAVE_FDATASYNC''"
    by (rule check_fullfsync_other) simp
  from a u1 have "lookup s1 ''fdatasync'' = lookup st ''fdatasync''"
    by (rule check_fullfsync_other) simp
  then have k2: "pp_defined ''fdatasync'' s1 = pp_defined ''fdatasync'' st"
    by (simp add: defined_lookup)
  from k1 k2
  have c: "lookup (projr (check_fdatasync e s1)) ''HAVE_FDATASYNC''
         = lookup (projr (check_fdatasync e st)) ''HAVE_FDATASYNC''"
    by (rule fdatasync_cong)
  from ba u2 have d: "lookup s21 ''HAVE_FDATASYNC'' = lookup s2 ''HAVE_FDATASYNC''"
    by (rule check_fullfsync_other) simp
  have n: "\<not> isl (check_fdatasync e s1)" by (simp add: fdatasync_value)
  from a b ba c d n show ?thesis by simp
qed

text \<open>
  The byte-order block reads the state through the override, the platform macros and
  the three symbols it tests.
\<close>

lemma endianness_cong:
  assumes ov: "lookup s ''LEVELDB_IS_BIG_ENDIAN'' = lookup t ''LEVELDB_IS_BIG_ENDIAN''"
    and os: "\<forall>m \<in> set [''OS_MACOSX'', ''OS_IOS'', ''OS_SOLARIS'', ''OS_FREEBSD'', ''OS_OPENBSD'',
                          ''OS_NETBSD'', ''OS_DRAGONFLYBSD'', ''OS_HPUX'', ''OS_ANDROID''].
               pp_defined m s = pp_defined m t"
    and sy: "\<forall>m \<in> set [''__DARWIN_BIG_ENDIAN'', ''__DARWIN_BYTE_ORDER'', ''_BIG_ENDIAN''].
               pp_defined m s = pp_defined m t"
  shows "isl (check_endianness e s) = isl (check_endianness e t)
       \<and> (\<not> isl (check_endianness e s) \<longrightarrow>
            lookup (projr (check_endianness e s)) ''LEVELDB_IS_BIG_ENDIAN''
            = lookup (projr (check_endianness e t)) ''LEVELDB_IS_BIG_ENDIAN'')"
proof -
  from ov have d: "pp_defined ''LEVELDB_IS_BIG_ENDIAN'' s = pp_defined ''LEVELDB_IS_BIG_ENDIAN'' t"
    by (simp add: defined_lookup)
  from os have o:
    "pp_defined ''OS_MACOSX'' s = pp_defined ''OS_MACOSX'' t"
    "pp_defined ''OS_IOS'' s = pp_defined ''OS_IOS'' t"
    "pp_defined ''OS_SOLARIS'' s = pp_defined ''OS_SOLARIS'' t"
    "pp_defined ''OS_FREEBSD'' s = pp_defined ''OS_FREEBSD'' t"
    "pp_defined ''OS_OPENBSD'' s = pp_defined ''OS_OPENBSD'' t"
    "pp_defined ''OS_NETBSD'' s = pp_defined ''OS_NETBSD'' t"
    "pp_defined ''OS_DRAGONFLYBSD'' s = pp_defined ''OS_DRAGONFLYBSD'' t"
    "pp_defined ''OS_HPUX'' s = pp_defined ''OS_HPUX'' t"
    "pp_defined ''OS_ANDROID'' s = pp_defined ''OS_ANDROID'' t"
    by simp_all
  from sy have y:
    "pp_defined ''__DARWIN_BIG_ENDIAN'' s = pp_defined ''__DARWIN_BIG_ENDIAN'' t"
    "pp_defined ''__DARWIN_BYTE_ORDER'' s = pp_defined ''__DARWIN_BYTE_ORDER'' t"
    "pp_defined ''_BIG_ENDIAN'' s = pp_defined ''_BIG_ENDIAN'' t"
    by simp_all
  note rw = check_endianness_def include_cases d o y defined_after_include
    lookup_after_include ov
  consider (override) "pp_defined ''LEVELDB_IS_BIG_ENDIAN'' t"
    | (apple) "\<not> pp_defined ''LEVELDB_IS_BIG_ENDIAN'' t"
        "pp_defined ''OS_MACOSX'' t \<or> pp_defined ''OS_IOS'' t"
    | (solaris) "\<not> pp_defined ''LEVELDB_IS_BIG_ENDIAN'' t"
        "\<not> (pp_defined ''OS_MACOSX'' t \<or> pp_defined ''OS_IOS'' t)"
        "pp_defined ''OS_SOLARIS'' t"
    | (bsd) "\<not> pp_defined ''LEVELDB_IS_BIG_ENDIAN'' t"
        "\<not> (pp_defined ''OS_MACOSX'' t \<or> pp_defined ''OS_IOS'' t)"
        "\<not> pp_defined ''OS_SOLARIS'' t"
        "pp_defined ''OS_FREEBSD'' t \<or> pp_defined ''OS_OPENBSD'' t \<or>
         pp_defined ''OS_NETBSD'' t \<or> pp_defined ''OS_DRAGONFLYBSD'' t"
    | (hpux) "\<not> pp_defined ''LEVELDB_IS_BIG_ENDIAN'' t"
        "\<not> (pp_defined ''OS_MACOSX'' t \<or> pp_defined ''OS_IOS'' t)"
        "\<not> pp_defined ''OS_SOLARIS'' t"
        "\<not> (pp_defined ''OS_FREEBSD'' t \<or> pp_defined ''OS_OPENBSD'' t \<or>
            pp_defined ''OS_NETBSD'' t \<or> pp_defined ''OS_DRAGONFLYBSD'' t)"
        "pp_defined ''OS_HPUX'' t"
    | (android) "\<not> pp_defined ''LEVELDB_IS_BIG_ENDIAN'' t"
        "\<not> (pp_defined ''OS_MACOSX'' t \<or> pp_defined ''OS_IOS'' t)"
        "\<not> pp_defined ''OS_SOLARIS'' t"
        "\<not> (pp_defined ''OS_FREEBSD'' t \<or> pp_defined ''OS_OPENBSD'' t \<or>
            pp_defined ''OS_NETBSD'' t \<or> pp_defined ''OS_DRAGONFLYBSD'' t)"
        "\<not> pp_defined ''OS_HPUX'' t" "pp_defined ''OS_ANDROID'' t"
    | (generic) "\<not> pp_defined ''LEVELDB_IS_BIG_ENDIAN'' t"
        "\<not> (pp_defined ''OS_MACOSX'' t \<or> pp_defined ''OS_IOS'' t)"
        "\<not> pp_defined ''OS_SOLARIS'' t"
        "\<not> (pp_defined ''OS_FREEBSD'' t \<or> pp_defined ''OS_OPENBSD'' t \<or>
            pp_defined ''OS_NETBSD'' t \<or> pp_defined ''OS_DRAGONFLYBSD'' t)"
        "\<not> pp_defined ''OS_HPUX'' t" "\<not> pp_defined ''OS_ANDROID'' t"
    by blast
  then show ?thesis
  proof cases
    case override
    then show ?thesis by (simp add: rw)
  next
    case apple
    then show ?thesis by (simp add: rw split: option.splits)
  next
    case solaris
    then show ?thesis by (simp add: rw)
  next
    case bsd
    then show ?thesis by (simp add: rw)
  next
    case hpux
    then show ?thesis by (simp add: rw)
  next
    case android
    then show ?thesis by (simp add: rw)
  next
    case generic
    then show ?thesis by (simp add: rw)
  qed
qed

text \<open>
  C9, as the header has it.  Idempotence: a state that port_config.h has produced is
  returned unchanged by a second inclusion, on any platform (the include guard).
  Own inputs: the value of each capability macro is given by a formula in its own
  override, the presence of its own header and the definedness of its own probe
  symbol at the point of the test; the byte-order block gives the same outcome on
  any two states that agree on the override, on the nine platform macros and on the
  three symbols it tests.
  Order: the blocks share one macro table, so what a probe symbol is at the point of
  the test can depend on the header that another block included.  Provided unistd.h
  does not itself define the symbol or the macro of the fullfsync probe,
  \<^verbatim>\<open>HAVE_FULLFSYNC\<close> gets the same value whether its block runs alone, after the
  fdatasync block or before it; and likewise for \<^verbatim>\<open>HAVE_FDATASYNC\<close> provided
  fcntl.h does not define \<^verbatim>\<open>fdatasync\<close> or \<^verbatim>\<open>HAVE_FDATASYNC\<close>.
\<close>

theorem resolution_idempotent_independent:
  "(\<forall>e2 st'. port_config e st = Inr st' \<longrightarrow> port_config e2 st' = Inr st')
   \<and> (map_of (header_macros e ''unistd.h'') ''F_FULLFSYNC'' = None
        \<and> map_of (header_macros e ''unistd.h'') ''HAVE_FULLFSYNC'' = None \<longrightarrow>
        \<not> isl (and_then (check_fdatasync e st) (check_fullfsync e))
        \<and> lookup (projr (and_then (check_fdatasync e st) (check_fullfsync e))) ''HAVE_FULLFSYNC''
            = lookup (projr (check_fullfsync e st)) ''HAVE_FULLFSYNC''
        \<and> lookup (projr (and_then (check_fullfsync e st) (check_fdatasync e))) ''HAVE_FULLFSYNC''
            = lookup (projr (check_fullfsync e st)) ''HAVE_FULLFSYNC'')
   \<and> (map_of (header_macros e ''fcntl.h'') ''fdatasync'' = None
        \<and> map_of (header_macros e ''fcntl.h'') ''HAVE_FDATASYNC'' = None \<longrightarrow>
        \<not> isl (and_then (check_fullfsync e st) (check_fdatasync e))
        \<and> lookup (projr (and_then (check_fullfsync e st) (check_fdatasync e))) ''HAVE_FDATASYNC''
            = lookup (projr (check_fdatasync e st)) ''HAVE_FDATASYNC''
        \<and> lookup (projr (and_then (check_fdatasync e st) (check_fullfsync e))) ''HAVE_FDATASYNC''
            = lookup (projr (check_fdatasync e st)) ''HAVE_FDATASYNC'')
   \<and> lookup (projr (check_fdatasync e st)) ''HAVE_FDATASYNC'' =
       (case lookup st ''HAVE_FDATASYNC'' of
          Some v \<Rightarrow> Some v
        | None \<Rightarrow> Some (IntLit (if has_include e ''unistd.h''
                                     \<and> pp_defined ''fdatasync'' (after_include e ''unistd.h'' st)
                                  then 1 else 0)))
   \<and> lookup (projr (check_fullfsync e st)) ''HAVE_FULLFSYNC'' =
       (case lookup st ''HAVE_FULLFSYNC'' of
          Some v \<Rightarrow> Some v
        | None \<Rightarrow> Some (IntLit (if has_include e ''fcntl.h''
                                     \<and> pp_defined ''F_FULLFSYNC'' (after_include e ''fcntl.h'' st)
                                  then 1 else 0)))
   \<and> lookup (projr (check_crc32c st)) ''HAVE_CRC32C'' =
       (case lookup st ''HAVE_CRC32C'' of Some v \<Rightarrow> Some v | None \<Rightarrow> Some (IntLit 0))
   \<and> lookup (projr (check_snappy st)) ''HAVE_SNAPPY'' =
       (case lookup st ''HAVE_SNAPPY'' of Some v \<Rightarrow> Some v | None \<Rightarrow> Some (IntLit 1))
   \<and> (\<forall>t. lookup st ''LEVELDB_IS_BIG_ENDIAN'' = lookup t ''LEVELDB_IS_BIG_ENDIAN''
          \<and> (\<forall>m \<in> set [''OS_MACOSX'', ''OS_IOS'', ''OS_SOLARIS'', ''OS_FREEBSD'', ''OS_OPENBSD'',
                          ''OS_NETBSD'', ''OS_DRAGONFLYBSD'', ''OS_HPUX'', ''OS_ANDROID''].
                pp_defined m st = pp_defined m t)
          \<and> (\<forall>m \<in> set [''__DARWIN_BIG_ENDIAN'', ''__DARWIN_BYTE_ORDER'', ''_BIG_ENDIAN''].
                pp_defined m st = pp_defined m t)
        \<longrightarrow> isl (check_endianness e st) = isl (check_endianness e t)
            \<and> (\<not> isl (check_endianness e st) \<longrightarrow>
                 lookup (projr (check_endianness e st)) ''LEVELDB_IS_BIG_ENDIAN''
                 = lookup (projr (check_endianness e t)) ''LEVELDB_IS_BIG_ENDIAN''))"
  (is "?idem \<and> ?full \<and> ?range \<and> ?v1 \<and> ?v2 \<and> ?v3 \<and> ?v4 \<and> ?endian")
proof -
  have 1: ?idem using port_config_idem by blast
  have 2: ?full using fullfsync_after_fdatasync by blast
  have 3: ?range using fdatasync_after_fullfsync by blast
  have 4: ?v1 by (rule fdatasync_value [THEN conjunct2])
  have 5: ?v2 by (rule fullfsync_value [THEN conjunct2])
  have 6: ?v3 by (rule crc32c_value [THEN conjunct2])
  have 7: ?v4 by (rule snappy_value [THEN conjunct2])
  have 8: ?endian
  proof (intro allI impI, elim conjE)
    fix t
    assume "lookup st ''LEVELDB_IS_BIG_ENDIAN'' = lookup t ''LEVELDB_IS_BIG_ENDIAN''"
      and "\<forall>m \<in> set [''OS_MACOSX'', ''OS_IOS'', ''OS_SOLARIS'', ''OS_FREEBSD'', ''OS_OPENBSD'',
                          ''OS_NETBSD'', ''OS_DRAGONFLYBSD'', ''OS_HPUX'', ''OS_ANDROID''].
                pp_defined m st = pp_defined m t"
      and "\<forall>m \<in> set [''__DARWIN_BIG_ENDIAN'', ''__DARWIN_BYTE_ORDER'', ''_BIG_ENDIAN''].
                pp_defined m st = pp_defined m t"
    then show "isl (check_endianness e st) = isl (check_endianness e t)
            \<and> (\<not> isl (check_endianness e st) \<longrightarrow>
                 lookup (projr (check_endianness e st)) ''LEVELDB_IS_BIG_ENDIAN''
                 = lookup (projr (check_endianness e t)) ''LEVELDB_IS_BIG_ENDIAN'')"
      by (rule endianness_cong)
  qed
  from 1 2 3 4 5 6 7 8 show ?thesis by (intro conjI)
qed

theorem resolution_idempotent_independent_witness:
  "port_config linux (projr (port_config linux bare)) = Inr (projr (port_config linux bare))
   \<and> port_config linux bare = Inr (projr (port_config linux bare))
   \<and> map_of (header_macros linux ''unistd.h'') ''F_FULLFSYNC'' = None
   \<and> map_of (header_macros linux ''unistd.h'') ''HAVE_FULLFSYNC'' = None
   \<and> lookup (projr (and_then (check_fdatasync linux bare) (check_fullfsync linux))) ''HAVE_FULLFSYNC''
       = lookup (projr (check_fullfsync linux bare)) ''HAVE_FULLFSYNC''
   \<and> map_of (header_macros linux ''fcntl.h'') ''fdatasync'' = None
   \<and> map_of (header_macros linux ''fcntl.h'') ''HAVE_FDATASYNC'' = None
   \<and> lookup (projr (and_then (check_fullfsync linux bare) (check_fdatasync linux))) ''HAVE_FDATASYNC''
       = lookup (projr (check_fdatasync linux bare)) ''HAVE_FDATASYNC''"
proof -
  note th = resolution_idempotent_independent [of linux bare]
  have r: "port_config linux bare = Inr (projr (port_config linux bare))"
    by (simp add: port_config_linux_bare)
  have i: "port_config linux (projr (port_config linux bare)) = Inr (projr (port_config linux bare))"
    by (rule th [THEN conjunct1, THEN spec, THEN spec, THEN mp, OF r])
  have u: "map_of (header_macros linux ''unistd.h'') ''F_FULLFSYNC'' = None"
          "map_of (header_macros linux ''unistd.h'') ''HAVE_FULLFSYNC'' = None"
    by (simp_all add: header_macros_def linux_def)
  have f: "map_of (header_macros linux ''fcntl.h'') ''fdatasync'' = None"
          "map_of (header_macros linux ''fcntl.h'') ''HAVE_FDATASYNC'' = None"
    by (simp_all add: header_macros_def linux_def)
  note full = th [THEN conjunct2, THEN conjunct1, THEN mp, OF conjI [OF u]]
  note range = th [THEN conjunct2, THEN conjunct2, THEN conjunct1, THEN mp, OF conjI [OF f]]
  show ?thesis
    by (intro conjI i r u f full [THEN conjunct2, THEN conjunct1]
        range [THEN conjunct2, THEN conjunct1])
qed

text \<open>
  C9 as the specification words it does not hold.  Where unistd.h defines
  \<^verbatim>\<open>F_FULLFSYNC\<close> and fcntl.h does not, \<^verbatim>\<open>HAVE_FULLFSYNC\<close> is \<^verbatim>\<open>0\<close> when its
  block runs alone or first, and \<^verbatim>\<open>1\<close> when the fdatasync block has run before
  it; and over the whole header it is \<^verbatim>\<open>1\<close> with nothing on the command line and
  \<^verbatim>\<open>0\<close> with \<^verbatim>\<open>-DHAVE_FDATASYNC=0\<close>, an override of the other fact.
\<close>

theorem fullfsync_depends_on_fdatasync:
  "lookup (projr (check_fullfsync fullfsync_in_unistd bare)) ''HAVE_FULLFSYNC'' = Some (IntLit 0)
   \<and> lookup (projr (and_then (check_fdatasync fullfsync_in_unistd bare)
                        (check_fullfsync fullfsync_in_unistd))) ''HAVE_FULLFSYNC''
       = Some (IntLit 1)
   \<and> lookup (projr (and_then (check_fullfsync fullfsync_in_unistd bare)
                        (check_fdatasync fullfsync_in_unistd))) ''HAVE_FULLFSYNC''
       = Some (IntLit 0)
   \<and> \<not> isl (port_config fullfsync_in_unistd bare)
   \<and> lookup (projr (port_config fullfsync_in_unistd bare)) ''HAVE_FULLFSYNC'' = Some (IntLit 1)
   \<and> \<not> isl (port_config fullfsync_in_unistd (cmdline [(''HAVE_FDATASYNC'', IntLit 0)]))
   \<and> lookup (projr (port_config fullfsync_in_unistd (cmdline [(''HAVE_FDATASYNC'', IntLit 0)])))
        ''HAVE_FULLFSYNC'' = Some (IntLit 0)"
  by (simp add: port_config_def check_fdatasync_eq check_fullfsync_eq check_crc32c_def
        check_snappy_def check_endianness_def include_cases has_include_def
        fullfsync_in_unistd_def pp_defined_def pp_define_def after_include_def
        header_macros_def cmdline_def bare_def lookup_def)

section \<open>Capability facts with a fixed default\<close>

lemma check_crc32c_other:
  "check_crc32c st = Inr st' \<Longrightarrow> k \<noteq> ''HAVE_CRC32C'' \<Longrightarrow> lookup st' k = lookup st k"
  by (auto simp: check_crc32c_def split: if_splits)

text \<open>
  Up to the block of a macro \<open>m\<close> that is known to none of the system headers and was
  not defined beforehand, \<open>m\<close> stays undefined.
\<close>

lemma undefined_until_crc32c:
  assumes "\<not> pp_defined m st" and "headers_avoid e m"
    and "m \<noteq> ''STORAGE_LEVELDB_PORT_PORT_CONFIG_H_''"
    and "m \<noteq> ''HAVE_FDATASYNC''" and "m \<noteq> ''HAVE_FULLFSYNC''"
    and r1: "check_fdatasync e (pp_define ''STORAGE_LEVELDB_PORT_PORT_CONFIG_H_'' Empty st) = Inr s1"
    and r2: "check_fullfsync e s1 = Inr s2"
  shows "\<not> pp_defined m s2"
proof -
  let ?s0 = "pp_define ''STORAGE_LEVELDB_PORT_PORT_CONFIG_H_'' Empty st"
  from assms(1,3) have "lookup ?s0 m = None" by (simp add: defined_lookup)
  moreover from r1 headers_avoidD [OF assms(2)] assms(4) have "lookup s1 m = lookup ?s0 m"
    by (rule check_fdatasync_other)
  moreover from r2 headers_avoidD [OF assms(2)] assms(5) have "lookup s2 m = lookup s1 m"
    by (rule check_fullfsync_other)
  ultimately show ?thesis by (simp add: defined_lookup)
qed

text \<open>The two defaults after the whole header.\<close>

lemma port_config_crc32c:
  assumes guard: "\<not> pp_defined ''STORAGE_LEVELDB_PORT_PORT_CONFIG_H_'' st"
    and nov: "\<not> pp_defined ''HAVE_CRC32C'' st"
    and av: "headers_avoid e ''HAVE_CRC32C''"
    and run: "port_config e st = Inr st'"
  shows "lookup st' ''HAVE_CRC32C'' = Some (IntLit 0)"
proof -
  from run guard obtain s1 s2 s3 s4 where
    r1: "check_fdatasync e (pp_define ''STORAGE_LEVELDB_PORT_PORT_CONFIG_H_'' Empty st) = Inr s1"
    and r2: "check_fullfsync e s1 = Inr s2" and r3: "check_crc32c s2 = Inr s3"
    and r4: "check_snappy s3 = Inr s4" and r5: "check_endianness e s4 = Inr st'"
    by (auto simp: port_config_def elim!: and_then_InrE)
  from nov av have "\<not> pp_defined ''HAVE_CRC32C'' s2"
    by (rule undefined_until_crc32c [OF _ _ _ _ _ r1 r2]) simp_all
  with r3 have "lookup s3 ''HAVE_CRC32C'' = Some (IntLit 0)"
    by (auto simp: check_crc32c_def)
  with r4 have "lookup s4 ''HAVE_CRC32C'' = Some (IntLit 0)" by (rule check_snappy_keeps)
  with r5 av show ?thesis by (rule check_endianness_keeps)
qed

lemma port_config_snappy:
  assumes guard: "\<not> pp_defined ''STORAGE_LEVELDB_PORT_PORT_CONFIG_H_'' st"
    and nov: "\<not> pp_defined ''HAVE_SNAPPY'' st"
    and av: "headers_avoid e ''HAVE_SNAPPY''"
    and run: "port_config e st = Inr st'"
  shows "lookup st' ''HAVE_SNAPPY'' = Some (IntLit 1)"
proof -
  from run guard obtain s1 s2 s3 s4 where
    r1: "check_fdatasync e (pp_define ''STORAGE_LEVELDB_PORT_PORT_CONFIG_H_'' Empty st) = Inr s1"
    and r2: "check_fullfsync e s1 = Inr s2" and r3: "check_crc32c s2 = Inr s3"
    and r4: "check_snappy s3 = Inr s4" and r5: "check_endianness e s4 = Inr st'"
    by (auto simp: port_config_def elim!: and_then_InrE)
  from nov av have "\<not> pp_defined ''HAVE_SNAPPY'' s2"
    by (rule undefined_until_crc32c [OF _ _ _ _ _ r1 r2]) simp_all
  moreover from r3 have "lookup s3 ''HAVE_SNAPPY'' = lookup s2 ''HAVE_SNAPPY''"
    by (rule check_crc32c_other) simp
  ultimately have "\<not> pp_defined ''HAVE_SNAPPY'' s3" by (simp add: defined_lookup)
  with r4 have "lookup s4 ''HAVE_SNAPPY'' = Some (IntLit 1)"
    by (auto simp: check_snappy_def)
  with r5 av show ?thesis by (rule check_endianness_keeps)
qed

text \<open>
  C6.  When \<^verbatim>\<open>HAVE_CRC32C\<close> is not defined beforehand, its block defines it as
  \<^verbatim>\<open>0\<close> whatever the platform is (the block consults no header and no platform
  macro), and the block cannot fail.  After the whole header the macro is \<^verbatim>\<open>0\<close> on
  every platform whose system headers do not define it themselves.
\<close>

theorem crc32c_default_zero:
  assumes "\<not> pp_defined ''HAVE_CRC32C'' st"
  shows "\<not> isl (check_crc32c st)
       \<and> lookup (projr (check_crc32c st)) ''HAVE_CRC32C'' = Some (IntLit 0)
       \<and> fact_value (Suc n) (projr (check_crc32c st)) ''HAVE_CRC32C'' = Some 0
       \<and> (\<forall>st'. \<not> pp_defined ''STORAGE_LEVELDB_PORT_PORT_CONFIG_H_'' st
                \<and> headers_avoid e ''HAVE_CRC32C'' \<and> port_config e st = Inr st'
              \<longrightarrow> lookup st' ''HAVE_CRC32C'' = Some (IntLit 0))"
proof -
  from assms have "\<not> isl (check_crc32c st)
       \<and> lookup (projr (check_crc32c st)) ''HAVE_CRC32C'' = Some (IntLit 0)
       \<and> fact_value (Suc n) (projr (check_crc32c st)) ''HAVE_CRC32C'' = Some 0"
    by (simp add: check_crc32c_def fact_value_def pp_define_def lookup_def)
  moreover have "\<forall>st'. \<not> pp_defined ''STORAGE_LEVELDB_PORT_PORT_CONFIG_H_'' st
                \<and> headers_avoid e ''HAVE_CRC32C'' \<and> port_config e st = Inr st'
              \<longrightarrow> lookup st' ''HAVE_CRC32C'' = Some (IntLit 0)"
    using assms port_config_crc32c by blast
  ultimately show ?thesis by simp
qed

theorem crc32c_default_zero_witness:
  "\<not> pp_defined ''HAVE_CRC32C'' bare
   \<and> \<not> isl (check_crc32c bare)
   \<and> lookup (projr (check_crc32c bare)) ''HAVE_CRC32C'' = Some (IntLit 0)
   \<and> fact_value (Suc 0) (projr (check_crc32c bare)) ''HAVE_CRC32C'' = Some 0
   \<and> \<not> pp_defined ''STORAGE_LEVELDB_PORT_PORT_CONFIG_H_'' bare
   \<and> headers_avoid linux ''HAVE_CRC32C''
   \<and> port_config linux bare = Inr (projr (port_config linux bare))
   \<and> lookup (projr (port_config linux bare)) ''HAVE_CRC32C'' = Some (IntLit 0)"
proof -
  note th = crc32c_default_zero [OF bare_undefined, of 0 linux]
  have g: "\<not> pp_defined ''STORAGE_LEVELDB_PORT_PORT_CONFIG_H_'' bare"
    by (rule bare_undefined)
  have av: "headers_avoid linux ''HAVE_CRC32C''"
    by (simp add: headers_avoid_def linux_def)
  have r: "port_config linux bare = Inr (projr (port_config linux bare))"
    by (simp add: port_config_linux_bare)
  note whole = th [THEN conjunct2, THEN conjunct2, THEN conjunct2, THEN spec, THEN mp,
      OF conjI [OF g conjI [OF av r]]]
  show ?thesis
    by (intro conjI bare_undefined th [THEN conjunct1] th [THEN conjunct2, THEN conjunct1]
        th [THEN conjunct2, THEN conjunct2, THEN conjunct1] av r whole)
qed

text \<open>The whole header for macOS, built with \<^verbatim>\<open>-DOS_MACOSX\<close>.\<close>

lemma port_config_darwin:
  "port_config darwin (cmdline [(''OS_MACOSX'', IntLit 1)]) =
     Inr \<lparr>macros =
            [(''LEVELDB_IS_BIG_ENDIAN'',
                Equals (Ident ''__DARWIN_BYTE_ORDER'') (Ident ''__DARWIN_BIG_ENDIAN'')),
             (''__DARWIN_LITTLE_ENDIAN'', IntLit 1234), (''__DARWIN_BIG_ENDIAN'', IntLit 4321),
             (''__DARWIN_BYTE_ORDER'', Ident ''__DARWIN_LITTLE_ENDIAN''),
             (''HAVE_SNAPPY'', IntLit 1), (''HAVE_CRC32C'', IntLit 0),
             (''HAVE_FULLFSYNC'', IntLit 1), (''F_GETFL'', IntLit 3), (''F_FULLFSYNC'', IntLit 51),
             (''HAVE_FDATASYNC'', IntLit 0), (''_UNISTD_H_'', Empty),
             (''STORAGE_LEVELDB_PORT_PORT_CONFIG_H_'', Empty), (''OS_MACOSX'', IntLit 1)],
          included = [''machine/endian.h'', ''fcntl.h'', ''unistd.h'']\<rparr>"
  by (simp add: port_config_def check_fdatasync_eq check_fullfsync_eq check_crc32c_def
        check_snappy_def check_endianness_def include_cases has_include_def darwin_def
        pp_defined_def pp_define_def after_include_def header_macros_def cmdline_def)

text \<open>
  C7.  When \<^verbatim>\<open>HAVE_SNAPPY\<close> is not defined beforehand, its block defines it as
  \<^verbatim>\<open>1\<close> whatever the platform is, and the block cannot fail.  After the whole
  header the macro is \<^verbatim>\<open>1\<close> on every platform whose system headers do not define
  it themselves.
\<close>

theorem snappy_default_one:
  assumes "\<not> pp_defined ''HAVE_SNAPPY'' st"
  shows "\<not> isl (check_snappy st)
       \<and> lookup (projr (check_snappy st)) ''HAVE_SNAPPY'' = Some (IntLit 1)
       \<and> fact_value (Suc n) (projr (check_snappy st)) ''HAVE_SNAPPY'' = Some 1
       \<and> (\<forall>st'. \<not> pp_defined ''STORAGE_LEVELDB_PORT_PORT_CONFIG_H_'' st
                \<and> headers_avoid e ''HAVE_SNAPPY'' \<and> port_config e st = Inr st'
              \<longrightarrow> lookup st' ''HAVE_SNAPPY'' = Some (IntLit 1))"
proof -
  from assms have "\<not> isl (check_snappy st)
       \<and> lookup (projr (check_snappy st)) ''HAVE_SNAPPY'' = Some (IntLit 1)
       \<and> fact_value (Suc n) (projr (check_snappy st)) ''HAVE_SNAPPY'' = Some 1"
    by (simp add: check_snappy_def fact_value_def pp_define_def lookup_def)
  moreover have "\<forall>st'. \<not> pp_defined ''STORAGE_LEVELDB_PORT_PORT_CONFIG_H_'' st
                \<and> headers_avoid e ''HAVE_SNAPPY'' \<and> port_config e st = Inr st'
              \<longrightarrow> lookup st' ''HAVE_SNAPPY'' = Some (IntLit 1)"
    using assms port_config_snappy by blast
  ultimately show ?thesis by simp
qed

theorem snappy_default_one_witness:
  "\<not> pp_defined ''HAVE_SNAPPY'' (cmdline [(''OS_MACOSX'', IntLit 1)])
   \<and> \<not> isl (check_snappy (cmdline [(''OS_MACOSX'', IntLit 1)]))
   \<and> lookup (projr (check_snappy (cmdline [(''OS_MACOSX'', IntLit 1)]))) ''HAVE_SNAPPY''
       = Some (IntLit 1)
   \<and> fact_value (Suc 0) (projr (check_snappy (cmdline [(''OS_MACOSX'', IntLit 1)])))
       ''HAVE_SNAPPY'' = Some 1
   \<and> \<not> pp_defined ''STORAGE_LEVELDB_PORT_PORT_CONFIG_H_'' (cmdline [(''OS_MACOSX'', IntLit 1)])
   \<and> headers_avoid darwin ''HAVE_SNAPPY''
   \<and> port_config darwin (cmdline [(''OS_MACOSX'', IntLit 1)])
       = Inr (projr (port_config darwin (cmdline [(''OS_MACOSX'', IntLit 1)])))
   \<and> lookup (projr (port_config darwin (cmdline [(''OS_MACOSX'', IntLit 1)]))) ''HAVE_SNAPPY''
       = Some (IntLit 1)"
proof -
  let ?st = "cmdline [(''OS_MACOSX'', IntLit 1)]"
  have nov: "\<not> pp_defined ''HAVE_SNAPPY'' ?st"
    and g: "\<not> pp_defined ''STORAGE_LEVELDB_PORT_PORT_CONFIG_H_'' ?st"
    by (simp_all add: pp_defined_def cmdline_def)
  note th = snappy_default_one [OF nov, of 0 darwin]
  have av: "headers_avoid darwin ''HAVE_SNAPPY''"
    by (simp add: headers_avoid_def darwin_def)
  have r: "port_config darwin ?st = Inr (projr (port_config darwin ?st))"
    by (simp add: port_config_darwin)
  note whole = th [THEN conjunct2, THEN conjunct2, THEN conjunct2, THEN spec, THEN mp,
      OF conjI [OF g conjI [OF av r]]]
  show ?thesis
    by (intro conjI nov g th [THEN conjunct1] th [THEN conjunct2, THEN conjunct1]
        th [THEN conjunct2, THEN conjunct2, THEN conjunct1] av r whole)
qed

section \<open>A probed symbol that is absent\<close>

text \<open>The arm of the chain that a state selects.\<close>

lemma arm_cases [case_names apple solaris bsd hpux android generic]:
  obtains (apple) "pp_defined ''OS_MACOSX'' t \<or> pp_defined ''OS_IOS'' t"
    | (solaris) "\<not> (pp_defined ''OS_MACOSX'' t \<or> pp_defined ''OS_IOS'' t)"
        "pp_defined ''OS_SOLARIS'' t"
    | (bsd) "\<not> (pp_defined ''OS_MACOSX'' t \<or> pp_defined ''OS_IOS'' t)"
        "\<not> pp_defined ''OS_SOLARIS'' t"
        "pp_defined ''OS_FREEBSD'' t \<or> pp_defined ''OS_OPENBSD'' t \<or>
         pp_defined ''OS_NETBSD'' t \<or> pp_defined ''OS_DRAGONFLYBSD'' t"
    | (hpux) "\<not> (pp_defined ''OS_MACOSX'' t \<or> pp_defined ''OS_IOS'' t)"
        "\<not> pp_defined ''OS_SOLARIS'' t"
        "\<not> (pp_defined ''OS_FREEBSD'' t \<or> pp_defined ''OS_OPENBSD'' t \<or>
            pp_defined ''OS_NETBSD'' t \<or> pp_defined ''OS_DRAGONFLYBSD'' t)"
        "pp_defined ''OS_HPUX'' t"
    | (android) "\<not> (pp_defined ''OS_MACOSX'' t \<or> pp_defined ''OS_IOS'' t)"
        "\<not> pp_defined ''OS_SOLARIS'' t"
        "\<not> (pp_defined ''OS_FREEBSD'' t \<or> pp_defined ''OS_OPENBSD'' t \<or>
            pp_defined ''OS_NETBSD'' t \<or> pp_defined ''OS_DRAGONFLYBSD'' t)"
        "\<not> pp_defined ''OS_HPUX'' t" "pp_defined ''OS_ANDROID'' t"
    | (generic) "\<not> (pp_defined ''OS_MACOSX'' t \<or> pp_defined ''OS_IOS'' t)"
        "\<not> pp_defined ''OS_SOLARIS'' t"
        "\<not> (pp_defined ''OS_FREEBSD'' t \<or> pp_defined ''OS_OPENBSD'' t \<or>
            pp_defined ''OS_NETBSD'' t \<or> pp_defined ''OS_DRAGONFLYBSD'' t)"
        "\<not> pp_defined ''OS_HPUX'' t" "\<not> pp_defined ''OS_ANDROID'' t"
  by blast

text \<open>The block without an override, arm by arm.\<close>

lemma check_endianness_arms:
  assumes nov: "\<not> pp_defined ''LEVELDB_IS_BIG_ENDIAN'' st"
  shows "check_endianness e st =
     (if pp_defined ''OS_MACOSX'' st \<or> pp_defined ''OS_IOS'' st then
        (if \<not> has_include e ''machine/endian.h'' then Inl (MissingHeader ''machine/endian.h'')
         else if pp_defined ''__DARWIN_BIG_ENDIAN'' (after_include e ''machine/endian.h'' st)
               \<and> pp_defined ''__DARWIN_BYTE_ORDER'' (after_include e ''machine/endian.h'' st)
         then Inr (pp_define ''LEVELDB_IS_BIG_ENDIAN''
                     (Equals (Ident ''__DARWIN_BYTE_ORDER'') (Ident ''__DARWIN_BIG_ENDIAN''))
                     (after_include e ''machine/endian.h'' st))
         else Inr (after_include e ''machine/endian.h'' st))
      else if pp_defined ''OS_SOLARIS'' st then
        (if \<not> has_include e ''sys/isa_defs.h'' then Inl (MissingHeader ''sys/isa_defs.h'')
         else Inr (pp_define ''LEVELDB_IS_BIG_ENDIAN''
                     (BoolLit (pp_defined ''_BIG_ENDIAN'' (after_include e ''sys/isa_defs.h'' st)))
                     (after_include e ''sys/isa_defs.h'' st)))
      else if pp_defined ''OS_FREEBSD'' st \<or> pp_defined ''OS_OPENBSD'' st \<or>
              pp_defined ''OS_NETBSD'' st \<or> pp_defined ''OS_DRAGONFLYBSD'' st then
        (if \<not> has_include e ''sys/types.h'' then Inl (MissingHeader ''sys/types.h'')
         else if \<not> has_include e ''sys/endian.h'' then Inl (MissingHeader ''sys/endian.h'')
         else Inr (pp_define ''LEVELDB_IS_BIG_ENDIAN''
                     (Equals (Ident ''_BYTE_ORDER'') (Ident ''_BIG_ENDIAN''))
                     (after_include e ''sys/endian.h'' (after_include e ''sys/types.h'' st))))
      else if pp_defined ''OS_HPUX'' st then
        Inr (pp_define ''LEVELDB_IS_BIG_ENDIAN'' (BoolLit True) st)
      else if pp_defined ''OS_ANDROID'' st then
        (if \<not> has_include e ''endian.h'' then Inl (MissingHeader ''endian.h'')
         else Inr (pp_define ''LEVELDB_IS_BIG_ENDIAN''
                     (Equals (Ident ''_BYTE_ORDER'') (Ident ''_BIG_ENDIAN''))
                     (after_include e ''endian.h'' st)))
      else
        (if \<not> has_include e ''endian.h'' then Inl (MissingHeader ''endian.h'')
         else Inr (pp_define ''LEVELDB_IS_BIG_ENDIAN''
                     (Equals (Ident ''__BYTE_ORDER'') (Ident ''__BIG_ENDIAN''))
                     (after_include e ''endian.h'' st))))"
proof (cases rule: arm_cases [of st])
  case apple
  with nov show ?thesis by (simp add: check_endianness_def include_cases)
next
  case solaris
  with nov show ?thesis by (simp add: check_endianness_def include_cases)
next
  case bsd
  with nov show ?thesis by (simp add: check_endianness_def include_cases)
next
  case hpux
  with nov show ?thesis by (simp add: check_endianness_def include_cases)
next
  case android
  with nov show ?thesis by (simp add: check_endianness_def include_cases)
next
  case generic
  with nov show ?thesis by (simp add: check_endianness_def include_cases)
qed

text \<open>An identifier that names no macro has no value, and neither has a comparison with it.\<close>

lemma fact_value_undefined: "lookup st a = None \<Longrightarrow> fact_value n st a = None"
  by (cases n) (simp_all add: fact_value_def lookup_def)

lemma fact_value_equals_absent:
  assumes "lookup st m = Some (Equals (Ident a) (Ident b))"
    and "lookup st a = None \<or> lookup st b = None"
  shows "fact_value n st m = None"
proof (cases n)
  case 0
  then show ?thesis by (simp add: fact_value_def)
next
  case (Suc k)
  from assms(2) have "fact_value k st a = None \<or> fact_value k st b = None"
    by (auto simp: fact_value_undefined)
  with eval_macro_equals [OF assms(1), of k] Suc show ?thesis
    by (auto split: option.splits)
qed

text \<open>The block fails in one way only: a header of the selected arm is missing.\<close>

lemma check_endianness_failure:
  assumes "check_endianness e st = Inl err"
  shows "\<exists>h \<in> set [''machine/endian.h'', ''sys/isa_defs.h'', ''sys/types.h'',
                    ''sys/endian.h'', ''endian.h''].
           err = MissingHeader h \<and> \<not> has_include e h"
proof (cases "pp_defined ''LEVELDB_IS_BIG_ENDIAN'' st")
  case True
  with assms show ?thesis by (simp add: check_endianness_def)
next
  case False
  note eq = check_endianness_arms [OF False, of e]
  show ?thesis
  proof (cases rule: arm_cases [of st])
    case apple
    with assms eq show ?thesis by (simp split: if_splits)
  next
    case solaris
    with assms eq show ?thesis by (simp split: if_splits)
  next
    case bsd
    with assms eq show ?thesis by (simp split: if_splits)
  next
    case hpux
    with assms eq show ?thesis by (simp split: if_splits)
  next
    case android
    with assms eq show ?thesis by (simp split: if_splits)
  next
    case generic
    with assms eq show ?thesis by (simp split: if_splits)
  qed
qed

text \<open>
  C4, as the header has it.  With no override, the byte-order block fails in one way
  only, on every arm: a header that the selected arm includes is missing.  A probed
  symbol that is absent never stops it.  On the Apple arm the block then defines
  nothing and \<^verbatim>\<open>LEVELDB_IS_BIG_ENDIAN\<close> stays as the include left it; on the
  Solaris arm an absent \<^verbatim>\<open>_BIG_ENDIAN\<close> gives \<^verbatim>\<open>false\<close>; on the BSD, Android
  and generic arms the macro is defined as the comparison whether or not the two
  symbols are defined.  What is lost is the value: a macro left undefined, or defined
  as a comparison with an identifier that names no macro, has no value as a constant
  expression, so that C++ code using it is ill-formed, after the header has gone
  through.
\<close>

theorem endianness_absent_symbol:
  assumes nov: "\<not> pp_defined ''LEVELDB_IS_BIG_ENDIAN'' st"
  shows "(\<forall>err. check_endianness e st = Inl err \<longrightarrow>
            (\<exists>h \<in> set [''machine/endian.h'', ''sys/isa_defs.h'', ''sys/types.h'',
                          ''sys/endian.h'', ''endian.h''].
               err = MissingHeader h \<and> \<not> has_include e h))
       \<and> (\<forall>st' a b n. check_endianness e st = Inr st'
              \<and> lookup st' ''LEVELDB_IS_BIG_ENDIAN'' = Some (Equals (Ident a) (Ident b))
              \<and> (lookup st' a = None \<or> lookup st' b = None)
            \<longrightarrow> fact_value n st' ''LEVELDB_IS_BIG_ENDIAN'' = None)
       \<and> (\<forall>st' n. check_endianness e st = Inr st'
              \<and> lookup st' ''LEVELDB_IS_BIG_ENDIAN'' = None
            \<longrightarrow> fact_value n st' ''LEVELDB_IS_BIG_ENDIAN'' = None)
       \<and> check_endianness e st =
     (if pp_defined ''OS_MACOSX'' st \<or> pp_defined ''OS_IOS'' st then
        (if \<not> has_include e ''machine/endian.h'' then Inl (MissingHeader ''machine/endian.h'')
         else if pp_defined ''__DARWIN_BIG_ENDIAN'' (after_include e ''machine/endian.h'' st)
               \<and> pp_defined ''__DARWIN_BYTE_ORDER'' (after_include e ''machine/endian.h'' st)
         then Inr (pp_define ''LEVELDB_IS_BIG_ENDIAN''
                     (Equals (Ident ''__DARWIN_BYTE_ORDER'') (Ident ''__DARWIN_BIG_ENDIAN''))
                     (after_include e ''machine/endian.h'' st))
         else Inr (after_include e ''machine/endian.h'' st))
      else if pp_defined ''OS_SOLARIS'' st then
        (if \<not> has_include e ''sys/isa_defs.h'' then Inl (MissingHeader ''sys/isa_defs.h'')
         else Inr (pp_define ''LEVELDB_IS_BIG_ENDIAN''
                     (BoolLit (pp_defined ''_BIG_ENDIAN'' (after_include e ''sys/isa_defs.h'' st)))
                     (after_include e ''sys/isa_defs.h'' st)))
      else if pp_defined ''OS_FREEBSD'' st \<or> pp_defined ''OS_OPENBSD'' st \<or>
              pp_defined ''OS_NETBSD'' st \<or> pp_defined ''OS_DRAGONFLYBSD'' st then
        (if \<not> has_include e ''sys/types.h'' then Inl (MissingHeader ''sys/types.h'')
         else if \<not> has_include e ''sys/endian.h'' then Inl (MissingHeader ''sys/endian.h'')
         else Inr (pp_define ''LEVELDB_IS_BIG_ENDIAN''
                     (Equals (Ident ''_BYTE_ORDER'') (Ident ''_BIG_ENDIAN''))
                     (after_include e ''sys/endian.h'' (after_include e ''sys/types.h'' st))))
      else if pp_defined ''OS_HPUX'' st then
        Inr (pp_define ''LEVELDB_IS_BIG_ENDIAN'' (BoolLit True) st)
      else if pp_defined ''OS_ANDROID'' st then
        (if \<not> has_include e ''endian.h'' then Inl (MissingHeader ''endian.h'')
         else Inr (pp_define ''LEVELDB_IS_BIG_ENDIAN''
                     (Equals (Ident ''_BYTE_ORDER'') (Ident ''_BIG_ENDIAN''))
                     (after_include e ''endian.h'' st)))
      else
        (if \<not> has_include e ''endian.h'' then Inl (MissingHeader ''endian.h'')
         else Inr (pp_define ''LEVELDB_IS_BIG_ENDIAN''
                     (Equals (Ident ''__BYTE_ORDER'') (Ident ''__BIG_ENDIAN''))
                     (after_include e ''endian.h'' st))))"
  (is "?fail \<and> ?cmp \<and> ?unset \<and> ?arms")
proof -
  have 1: ?fail using check_endianness_failure by blast
  have 2: ?cmp using fact_value_equals_absent by blast
  have 3: ?unset using fact_value_undefined by blast
  have 4: ?arms using nov by (rule check_endianness_arms)
  from 1 2 3 4 show ?thesis by (intro conjI)
qed

text \<open>
  Android built against an endian.h that has the double-underscore names only, the
  naming mismatch that the comment at lines 69-71 is about.
\<close>

lemma android_glibc_run:
  "check_endianness linux (cmdline [(''OS_ANDROID'', IntLit 1)]) =
     Inr \<lparr>macros =
            [(''LEVELDB_IS_BIG_ENDIAN'', Equals (Ident ''_BYTE_ORDER'') (Ident ''_BIG_ENDIAN'')),
             (''__LITTLE_ENDIAN'', IntLit 1234), (''__BIG_ENDIAN'', IntLit 4321),
             (''__BYTE_ORDER'', Ident ''__LITTLE_ENDIAN''), (''OS_ANDROID'', IntLit 1)],
          included = [''endian.h'']\<rparr>"
  by (simp add: check_endianness_def include_cases has_include_def linux_def
      after_include_def header_macros_def pp_defined_def pp_define_def cmdline_def)

theorem endianness_absent_symbol_witness:
  "\<not> pp_defined ''LEVELDB_IS_BIG_ENDIAN'' (cmdline [(''OS_ANDROID'', IntLit 1)])
   \<and> \<not> isl (check_endianness linux (cmdline [(''OS_ANDROID'', IntLit 1)]))
   \<and> lookup (projr (check_endianness linux (cmdline [(''OS_ANDROID'', IntLit 1)])))
        ''LEVELDB_IS_BIG_ENDIAN'' = Some (Equals (Ident ''_BYTE_ORDER'') (Ident ''_BIG_ENDIAN''))
   \<and> lookup (projr (check_endianness linux (cmdline [(''OS_ANDROID'', IntLit 1)])))
        ''_BYTE_ORDER'' = None
   \<and> fact_value 3 (projr (check_endianness linux (cmdline [(''OS_ANDROID'', IntLit 1)])))
        ''LEVELDB_IS_BIG_ENDIAN'' = None"
proof -
  let ?st = "cmdline [(''OS_ANDROID'', IntLit 1)]"
  let ?r = "projr (check_endianness linux ?st)"
  have nov: "\<not> pp_defined ''LEVELDB_IS_BIG_ENDIAN'' ?st"
    by (simp add: pp_defined_def cmdline_def)
  have ok: "\<not> isl (check_endianness linux ?st)"
    by (simp add: android_glibc_run)
  then have run: "check_endianness linux ?st = Inr ?r"
    by (cases "check_endianness linux ?st") simp_all
  have body: "lookup ?r ''LEVELDB_IS_BIG_ENDIAN''
                = Some (Equals (Ident ''_BYTE_ORDER'') (Ident ''_BIG_ENDIAN''))"
    by (simp add: android_glibc_run lookup_def)
  have absent: "lookup ?r ''_BYTE_ORDER'' = None"
    by (simp add: android_glibc_run lookup_def)
  note th = endianness_absent_symbol [OF nov, of linux]
  have novalue: "fact_value 3 ?r ''LEVELDB_IS_BIG_ENDIAN'' = None"
    by (rule th [THEN conjunct2, THEN conjunct1, THEN spec, THEN spec, THEN spec, THEN spec,
          THEN mp, OF conjI [OF run conjI [OF body disjI1 [OF absent]]]])
  show ?thesis
    by (intro conjI nov ok body absent novalue)
qed

text \<open>
  C4 as the specification words it does not hold: on iOS, with a machine/endian.h
  that defines neither \<^verbatim>\<open>__DARWIN_*\<close> macro, the block returns normally, having
  done nothing but the include.
\<close>

theorem apple_missing_symbols_goes_through:
  "check_endianness apple_plain (cmdline [(''OS_IOS'', IntLit 1)]) =
     Inr \<lparr>macros = [(''LITTLE_ENDIAN'', IntLit 1234), (''BIG_ENDIAN'', IntLit 4321),
                     (''BYTE_ORDER'', Ident ''LITTLE_ENDIAN''), (''OS_IOS'', IntLit 1)],
          included = [''machine/endian.h'']\<rparr>"
  by (simp add: check_endianness_def include_cases apple_plain_endian_h after_include_def
      pp_defined_def cmdline_def)

section \<open>What each fact is after the header\<close>

lemma check_snappy_other:
  "check_snappy st = Inr st' \<Longrightarrow> k \<noteq> ''HAVE_SNAPPY'' \<Longrightarrow> lookup st' k = lookup st k"
  by (auto simp: check_snappy_def split: if_splits)

text \<open>The five blocks of a first inclusion, one after the other.\<close>

lemma port_config_steps:
  assumes "\<not> pp_defined ''STORAGE_LEVELDB_PORT_PORT_CONFIG_H_'' st"
    and "port_config e st = Inr st'"
  obtains s1 s2 s3 s4 where
    "check_fdatasync e (pp_define ''STORAGE_LEVELDB_PORT_PORT_CONFIG_H_'' Empty st) = Inr s1"
    and "check_fullfsync e s1 = Inr s2" and "check_crc32c s2 = Inr s3"
    and "check_snappy s3 = Inr s4" and "check_endianness e s4 = Inr st'"
  using assms by (auto simp: port_config_def elim!: and_then_InrE)

lemma port_config_fdatasync:
  assumes guard: "\<not> pp_defined ''STORAGE_LEVELDB_PORT_PORT_CONFIG_H_'' st"
    and nov: "\<not> pp_defined ''HAVE_FDATASYNC'' st"
    and av: "headers_avoid e ''HAVE_FDATASYNC''"
    and run: "port_config e st = Inr st'"
  shows "lookup st' ''HAVE_FDATASYNC'' = Some (IntLit 0)
       \<or> lookup st' ''HAVE_FDATASYNC'' = Some (IntLit 1)"
proof -
  from guard run obtain s1 s2 s3 s4 where
    r1: "check_fdatasync e (pp_define ''STORAGE_LEVELDB_PORT_PORT_CONFIG_H_'' Empty st) = Inr s1"
    and r2: "check_fullfsync e s1 = Inr s2" and r3: "check_crc32c s2 = Inr s3"
    and r4: "check_snappy s3 = Inr s4" and r5: "check_endianness e s4 = Inr st'"
    by (rule port_config_steps)
  from nov r1 obtain i where i: "i = 0 \<or> i = 1"
    and l1: "lookup s1 ''HAVE_FDATASYNC'' = Some (IntLit i)"
    by (auto simp: check_fdatasync_eq split: if_splits)
  from r2 av l1 have "lookup s2 ''HAVE_FDATASYNC'' = Some (IntLit i)"
    by (rule check_fullfsync_keeps)
  with r3 have "lookup s3 ''HAVE_FDATASYNC'' = Some (IntLit i)" by (rule check_crc32c_keeps)
  with r4 have "lookup s4 ''HAVE_FDATASYNC'' = Some (IntLit i)" by (rule check_snappy_keeps)
  with r5 av have "lookup st' ''HAVE_FDATASYNC'' = Some (IntLit i)"
    by (rule check_endianness_keeps)
  with i show ?thesis by auto
qed

lemma port_config_fullfsync:
  assumes guard: "\<not> pp_defined ''STORAGE_LEVELDB_PORT_PORT_CONFIG_H_'' st"
    and nov: "\<not> pp_defined ''HAVE_FULLFSYNC'' st"
    and av: "headers_avoid e ''HAVE_FULLFSYNC''"
    and run: "port_config e st = Inr st'"
  shows "lookup st' ''HAVE_FULLFSYNC'' = Some (IntLit 0)
       \<or> lookup st' ''HAVE_FULLFSYNC'' = Some (IntLit 1)"
proof -
  let ?s0 = "pp_define ''STORAGE_LEVELDB_PORT_PORT_CONFIG_H_'' Empty st"
  from guard run obtain s1 s2 s3 s4 where
    r1: "check_fdatasync e ?s0 = Inr s1"
    and r2: "check_fullfsync e s1 = Inr s2" and r3: "check_crc32c s2 = Inr s3"
    and r4: "check_snappy s3 = Inr s4" and r5: "check_endianness e s4 = Inr st'"
    by (rule port_config_steps)
  from nov have "lookup ?s0 ''HAVE_FULLFSYNC'' = None" by (simp add: defined_lookup)
  moreover from r1 headers_avoidD [OF av]
  have "lookup s1 ''HAVE_FULLFSYNC'' = lookup ?s0 ''HAVE_FULLFSYNC''"
    by (rule check_fdatasync_other) simp
  ultimately have "\<not> pp_defined ''HAVE_FULLFSYNC'' s1" by (simp add: defined_lookup)
  with r2 obtain i where i: "i = 0 \<or> i = 1"
    and l2: "lookup s2 ''HAVE_FULLFSYNC'' = Some (IntLit i)"
    by (auto simp: check_fullfsync_eq split: if_splits)
  from r3 l2 have "lookup s3 ''HAVE_FULLFSYNC'' = Some (IntLit i)" by (rule check_crc32c_keeps)
  with r4 have "lookup s4 ''HAVE_FULLFSYNC'' = Some (IntLit i)" by (rule check_snappy_keeps)
  with r5 av have "lookup st' ''HAVE_FULLFSYNC'' = Some (IntLit i)"
    by (rule check_endianness_keeps)
  with i show ?thesis by auto
qed

text \<open>The replacement list that the byte-order block leaves, when it had to choose one.\<close>

lemma check_endianness_body:
  assumes nov: "\<not> pp_defined ''LEVELDB_IS_BIG_ENDIAN'' st"
    and av: "headers_avoid e ''LEVELDB_IS_BIG_ENDIAN''"
    and run: "check_endianness e st = Inr st'"
  shows "lookup st' ''LEVELDB_IS_BIG_ENDIAN'' \<in> set
           [None, Some (BoolLit True), Some (BoolLit False),
            Some (Equals (Ident ''__DARWIN_BYTE_ORDER'') (Ident ''__DARWIN_BIG_ENDIAN'')),
            Some (Equals (Ident ''_BYTE_ORDER'') (Ident ''_BIG_ENDIAN'')),
            Some (Equals (Ident ''__BYTE_ORDER'') (Ident ''__BIG_ENDIAN''))]"
proof -
  from nov have none: "lookup st ''LEVELDB_IS_BIG_ENDIAN'' = None"
    by (simp add: defined_lookup)
  note eq = check_endianness_arms [OF nov, of e]
  note rw = lookup_after_include_avoid [OF av] none
  show ?thesis
  proof (cases rule: arm_cases [of st])
    case apple
    with run eq show ?thesis by (auto simp: rw split: if_splits)
  next
    case solaris
    with run eq show ?thesis by (auto simp: rw split: if_splits)
  next
    case bsd
    with run eq show ?thesis by (auto simp: rw split: if_splits)
  next
    case hpux
    with run eq show ?thesis by (auto simp: rw split: if_splits)
  next
    case android
    with run eq show ?thesis by (auto simp: rw split: if_splits)
  next
    case generic
    with run eq show ?thesis by (auto simp: rw split: if_splits)
  qed
qed

lemma port_config_endianness:
  assumes guard: "\<not> pp_defined ''STORAGE_LEVELDB_PORT_PORT_CONFIG_H_'' st"
    and nov: "\<not> pp_defined ''LEVELDB_IS_BIG_ENDIAN'' st"
    and av: "headers_avoid e ''LEVELDB_IS_BIG_ENDIAN''"
    and run: "port_config e st = Inr st'"
  shows "lookup st' ''LEVELDB_IS_BIG_ENDIAN'' \<in> set
           [None, Some (BoolLit True), Some (BoolLit False),
            Some (Equals (Ident ''__DARWIN_BYTE_ORDER'') (Ident ''__DARWIN_BIG_ENDIAN'')),
            Some (Equals (Ident ''_BYTE_ORDER'') (Ident ''_BIG_ENDIAN'')),
            Some (Equals (Ident ''__BYTE_ORDER'') (Ident ''__BIG_ENDIAN''))]"
proof -
  from guard run obtain s1 s2 s3 s4 where
    r1: "check_fdatasync e (pp_define ''STORAGE_LEVELDB_PORT_PORT_CONFIG_H_'' Empty st) = Inr s1"
    and r2: "check_fullfsync e s1 = Inr s2" and r3: "check_crc32c s2 = Inr s3"
    and r4: "check_snappy s3 = Inr s4" and r5: "check_endianness e s4 = Inr st'"
    by (rule port_config_steps)
  from nov av have "\<not> pp_defined ''LEVELDB_IS_BIG_ENDIAN'' s2"
    by (rule undefined_until_crc32c [OF _ _ _ _ _ r1 r2]) simp_all
  moreover from r3 have "lookup s3 ''LEVELDB_IS_BIG_ENDIAN'' = lookup s2 ''LEVELDB_IS_BIG_ENDIAN''"
    by (rule check_crc32c_other) simp
  moreover from r4 have "lookup s4 ''LEVELDB_IS_BIG_ENDIAN'' = lookup s3 ''LEVELDB_IS_BIG_ENDIAN''"
    by (rule check_snappy_other) simp
  ultimately have "\<not> pp_defined ''LEVELDB_IS_BIG_ENDIAN'' s4" by (simp add: defined_lookup)
  from this av r5 show ?thesis by (rule check_endianness_body)
qed

text \<open>The value of a literal.\<close>

lemma fact_value_int: "lookup st m = Some (IntLit i) \<Longrightarrow> fact_value (Suc n) st m = Some i"
  by (simp add: fact_value_def lookup_def)

lemma fact_value_bool:
  "lookup st m = Some (BoolLit b) \<Longrightarrow> fact_value (Suc n) st m = Some (if b then 1 else 0)"
  by (simp add: fact_value_def lookup_def)

text \<open>
  C3, as the header has it.  When port_config.h is read for the first time and goes
  through:

  \<^item> the four capability macros are defined, each with one replacement list, and
    \<^verbatim>\<open>LEVELDB_IS_BIG_ENDIAN\<close> is defined too unless the Apple arm was taken and
    \<^verbatim>\<open>__DARWIN_BIG_ENDIAN\<close> and \<^verbatim>\<open>__DARWIN_BYTE_ORDER\<close> are not both defined;

  \<^item> a macro defined beforehand that no system header defines keeps the replacement
    list it was given, whatever that list is;

  \<^item> a capability macro that was not defined beforehand, and that no system header
    defines, is the literal \<^verbatim>\<open>0\<close> or \<^verbatim>\<open>1\<close> (\<^verbatim>\<open>HAVE_CRC32C\<close> is \<^verbatim>\<open>0\<close>,
    \<^verbatim>\<open>HAVE_SNAPPY\<close> is \<^verbatim>\<open>1\<close>);

  \<^item> \<^verbatim>\<open>LEVELDB_IS_BIG_ENDIAN\<close>, under the same conditions, is undefined or
    \<^verbatim>\<open>true\<close> or \<^verbatim>\<open>false\<close> or the comparison of one of three pairs of platform
    symbols;

  \<^item> a literal has its value, and a comparison of two symbols has a value exactly
    when both symbols have one.
\<close>

theorem facts_after_port_config:
  assumes guard: "\<not> pp_defined ''STORAGE_LEVELDB_PORT_PORT_CONFIG_H_'' st"
    and run: "port_config e st = Inr st'"
  shows "pp_defined ''HAVE_FDATASYNC'' st' \<and> pp_defined ''HAVE_FULLFSYNC'' st'
       \<and> pp_defined ''HAVE_CRC32C'' st' \<and> pp_defined ''HAVE_SNAPPY'' st'
       \<and> (\<not> pp_defined ''LEVELDB_IS_BIG_ENDIAN'' st' \<longrightarrow>
            (pp_defined ''OS_MACOSX'' st' \<or> pp_defined ''OS_IOS'' st')
            \<and> \<not> (pp_defined ''__DARWIN_BIG_ENDIAN'' st' \<and> pp_defined ''__DARWIN_BYTE_ORDER'' st')
            \<and> ''machine/endian.h'' \<in> set (included st'))
       \<and> (\<forall>m v. lookup st m = Some v \<and> headers_avoid e m \<longrightarrow> lookup st' m = Some v)
       \<and> (\<not> pp_defined ''HAVE_FDATASYNC'' st \<and> headers_avoid e ''HAVE_FDATASYNC'' \<longrightarrow>
            lookup st' ''HAVE_FDATASYNC'' = Some (IntLit 0)
            \<or> lookup st' ''HAVE_FDATASYNC'' = Some (IntLit 1))
       \<and> (\<not> pp_defined ''HAVE_FULLFSYNC'' st \<and> headers_avoid e ''HAVE_FULLFSYNC'' \<longrightarrow>
            lookup st' ''HAVE_FULLFSYNC'' = Some (IntLit 0)
            \<or> lookup st' ''HAVE_FULLFSYNC'' = Some (IntLit 1))
       \<and> (\<not> pp_defined ''HAVE_CRC32C'' st \<and> headers_avoid e ''HAVE_CRC32C'' \<longrightarrow>
            lookup st' ''HAVE_CRC32C'' = Some (IntLit 0))
       \<and> (\<not> pp_defined ''HAVE_SNAPPY'' st \<and> headers_avoid e ''HAVE_SNAPPY'' \<longrightarrow>
            lookup st' ''HAVE_SNAPPY'' = Some (IntLit 1))
       \<and> (\<not> pp_defined ''LEVELDB_IS_BIG_ENDIAN'' st \<and> headers_avoid e ''LEVELDB_IS_BIG_ENDIAN'' \<longrightarrow>
            lookup st' ''LEVELDB_IS_BIG_ENDIAN'' \<in> set
              [None, Some (BoolLit True), Some (BoolLit False),
               Some (Equals (Ident ''__DARWIN_BYTE_ORDER'') (Ident ''__DARWIN_BIG_ENDIAN'')),
               Some (Equals (Ident ''_BYTE_ORDER'') (Ident ''_BIG_ENDIAN'')),
               Some (Equals (Ident ''__BYTE_ORDER'') (Ident ''__BIG_ENDIAN''))])
       \<and> (\<forall>m i n. lookup st' m = Some (IntLit i) \<longrightarrow> fact_value (Suc n) st' m = Some i)
       \<and> (\<forall>m b n. lookup st' m = Some (BoolLit b) \<longrightarrow>
            fact_value (Suc n) st' m = Some (if b then 1 else 0))
       \<and> (\<forall>m a b n. lookup st' m = Some (Equals (Ident a) (Ident b)) \<longrightarrow>
            fact_value (Suc n) st' m =
              (case fact_value n st' a of
                 None \<Rightarrow> None
               | Some u \<Rightarrow> (case fact_value n st' b of
                              None \<Rightarrow> None
                            | Some v \<Rightarrow> Some (if u = v then 1 else 0))))"
  (is "?d1 \<and> ?d2 \<and> ?d3 \<and> ?d4 \<and> ?unset \<and> ?kept \<and> ?v1 \<and> ?v2 \<and> ?v3 \<and> ?v4 \<and> ?v5
       \<and> ?int \<and> ?bool \<and> ?cmp")
proof -
  from guard run obtain s1 s2 s3 s4 where
    r1: "check_fdatasync e (pp_define ''STORAGE_LEVELDB_PORT_PORT_CONFIG_H_'' Empty st) = Inr s1"
    and r2: "check_fullfsync e s1 = Inr s2" and r3: "check_crc32c s2 = Inr s3"
    and r4: "check_snappy s3 = Inr s4" and r5: "check_endianness e s4 = Inr st'"
    by (rule port_config_steps)
  have "pp_defined ''HAVE_FDATASYNC'' s1" using r1 by (rule check_fdatasync_sets)
  with r2 have "pp_defined ''HAVE_FDATASYNC'' s2" by (rule check_fullfsync_mono)
  with r3 have "pp_defined ''HAVE_FDATASYNC'' s3" by (rule check_crc32c_mono)
  with r4 have "pp_defined ''HAVE_FDATASYNC'' s4" by (rule check_snappy_mono)
  with r5 have d1: ?d1 by (rule check_endianness_mono)
  have "pp_defined ''HAVE_FULLFSYNC'' s2" using r2 by (rule check_fullfsync_sets)
  with r3 have "pp_defined ''HAVE_FULLFSYNC'' s3" by (rule check_crc32c_mono)
  with r4 have "pp_defined ''HAVE_FULLFSYNC'' s4" by (rule check_snappy_mono)
  with r5 have d2: ?d2 by (rule check_endianness_mono)
  have "pp_defined ''HAVE_CRC32C'' s3" using r3 by (rule check_crc32c_sets)
  with r4 have "pp_defined ''HAVE_CRC32C'' s4" by (rule check_snappy_mono)
  with r5 have d3: ?d3 by (rule check_endianness_mono)
  have "pp_defined ''HAVE_SNAPPY'' s4" using r4 by (rule check_snappy_sets)
  with r5 have d4: ?d4 by (rule check_endianness_mono)
  have u: ?unset using r5 by (intro impI) (rule check_endianness_sets)
  have k: ?kept using run port_config_keeps by blast
  have v1: ?v1 using guard run port_config_fdatasync by blast
  have v2: ?v2 using guard run port_config_fullfsync by blast
  have v3: ?v3 using guard run port_config_crc32c by blast
  have v4: ?v4 using guard run port_config_snappy by blast
  have v5: ?v5 using guard run port_config_endianness by blast
  have i: ?int using fact_value_int by blast
  have b: ?bool using fact_value_bool by blast
  have c: ?cmp using eval_macro_equals by blast
  from d1 d2 d3 d4 u k v1 v2 v3 v4 v5 i b c show ?thesis by (intro conjI)
qed

theorem facts_after_port_config_witness:
  "\<not> pp_defined ''STORAGE_LEVELDB_PORT_PORT_CONFIG_H_'' bare
   \<and> port_config linux bare = Inr (projr (port_config linux bare))
   \<and> pp_defined ''HAVE_FDATASYNC'' (projr (port_config linux bare))
   \<and> pp_defined ''HAVE_FULLFSYNC'' (projr (port_config linux bare))
   \<and> pp_defined ''HAVE_CRC32C'' (projr (port_config linux bare))
   \<and> pp_defined ''HAVE_SNAPPY'' (projr (port_config linux bare))
   \<and> \<not> pp_defined ''HAVE_CRC32C'' bare \<and> headers_avoid linux ''HAVE_CRC32C''
   \<and> lookup (projr (port_config linux bare)) ''HAVE_CRC32C'' = Some (IntLit 0)
   \<and> fact_value (Suc 0) (projr (port_config linux bare)) ''HAVE_CRC32C'' = Some 0"
proof -
  have g: "\<not> pp_defined ''STORAGE_LEVELDB_PORT_PORT_CONFIG_H_'' bare"
    by (rule bare_undefined)
  have r: "port_config linux bare = Inr (projr (port_config linux bare))"
    by (simp add: port_config_linux_bare)
  have nov: "\<not> pp_defined ''HAVE_CRC32C'' bare" by (rule bare_undefined)
  have av: "headers_avoid linux ''HAVE_CRC32C''"
    by (simp add: headers_avoid_def linux_def)
  note th = facts_after_port_config [OF g r]
  note rest = th [THEN conjunct2, THEN conjunct2, THEN conjunct2, THEN conjunct2]
  note vals = rest [THEN conjunct2, THEN conjunct2, THEN conjunct2, THEN conjunct2]
  note crc = vals [THEN conjunct1, THEN mp, OF conjI [OF nov av]]
  note lits = vals [THEN conjunct2, THEN conjunct2, THEN conjunct2, THEN conjunct1]
  note val = lits [THEN spec, THEN spec, THEN spec, THEN mp, OF crc]
  show ?thesis
    by (intro conjI g r th [THEN conjunct1] th [THEN conjunct2, THEN conjunct1]
        th [THEN conjunct2, THEN conjunct2, THEN conjunct1]
        th [THEN conjunct2, THEN conjunct2, THEN conjunct2, THEN conjunct1]
        nov av crc val)
qed

text \<open>Android against the glibc headers, and an override with an empty replacement list.\<close>

lemma port_config_android_glibc:
  "port_config linux (cmdline [(''OS_ANDROID'', IntLit 1)]) =
     Inr \<lparr>macros =
            [(''LEVELDB_IS_BIG_ENDIAN'', Equals (Ident ''_BYTE_ORDER'') (Ident ''_BIG_ENDIAN'')),
             (''__LITTLE_ENDIAN'', IntLit 1234), (''__BIG_ENDIAN'', IntLit 4321),
             (''__BYTE_ORDER'', Ident ''__LITTLE_ENDIAN''),
             (''HAVE_SNAPPY'', IntLit 1), (''HAVE_CRC32C'', IntLit 0),
             (''HAVE_FULLFSYNC'', IntLit 0), (''F_GETFL'', IntLit 3),
             (''HAVE_FDATASYNC'', IntLit 0), (''_UNISTD_H'', IntLit 1),
             (''STORAGE_LEVELDB_PORT_PORT_CONFIG_H_'', Empty), (''OS_ANDROID'', IntLit 1)],
          included = [''endian.h'', ''fcntl.h'', ''unistd.h'']\<rparr>"
  by (simp add: port_config_def check_fdatasync_eq check_fullfsync_eq check_crc32c_def
        check_snappy_def check_endianness_def include_cases has_include_def linux_def
        pp_defined_def pp_define_def after_include_def header_macros_def cmdline_def)

lemma port_config_empty_snappy:
  "port_config linux (cmdline [(''HAVE_SNAPPY'', Empty)]) =
     Inr \<lparr>macros =
            [(''LEVELDB_IS_BIG_ENDIAN'', Equals (Ident ''__BYTE_ORDER'') (Ident ''__BIG_ENDIAN'')),
             (''__LITTLE_ENDIAN'', IntLit 1234), (''__BIG_ENDIAN'', IntLit 4321),
             (''__BYTE_ORDER'', Ident ''__LITTLE_ENDIAN''),
             (''HAVE_CRC32C'', IntLit 0),
             (''HAVE_FULLFSYNC'', IntLit 0), (''F_GETFL'', IntLit 3),
             (''HAVE_FDATASYNC'', IntLit 0), (''_UNISTD_H'', IntLit 1),
             (''STORAGE_LEVELDB_PORT_PORT_CONFIG_H_'', Empty), (''HAVE_SNAPPY'', Empty)],
          included = [''endian.h'', ''fcntl.h'', ''unistd.h'']\<rparr>"
  by (simp add: port_config_def check_fdatasync_eq check_fullfsync_eq check_crc32c_def
        check_snappy_def check_endianness_def include_cases has_include_def linux_def
        pp_defined_def pp_define_def after_include_def header_macros_def cmdline_def)

text \<open>
  C3 as the specification words it does not hold, in three ways.  For macOS against
  the SDK without \<^verbatim>\<open>__DARWIN_*\<close> macros the header goes through and the byte-order
  macro is undefined.  For Android against the glibc headers it goes through with the
  macro defined as \<^verbatim>\<open>(_BYTE_ORDER == _BIG_ENDIAN)\<close> while \<^verbatim>\<open>_BYTE_ORDER\<close> names
  nothing, so the fact has no value.  With \<^verbatim>\<open>-DHAVE_SNAPPY=\<close> it goes through with
  \<^verbatim>\<open>HAVE_SNAPPY\<close> defined as nothing, so that fact has no value either.
\<close>

theorem facts_without_a_value:
  "\<not> isl (port_config apple_plain (cmdline [(''OS_MACOSX'', IntLit 1)]))
   \<and> lookup (projr (port_config apple_plain (cmdline [(''OS_MACOSX'', IntLit 1)])))
        ''LEVELDB_IS_BIG_ENDIAN'' = None
   \<and> \<not> isl (port_config linux (cmdline [(''OS_ANDROID'', IntLit 1)]))
   \<and> lookup (projr (port_config linux (cmdline [(''OS_ANDROID'', IntLit 1)])))
        ''LEVELDB_IS_BIG_ENDIAN'' = Some (Equals (Ident ''_BYTE_ORDER'') (Ident ''_BIG_ENDIAN''))
   \<and> lookup (projr (port_config linux (cmdline [(''OS_ANDROID'', IntLit 1)])))
        ''_BYTE_ORDER'' = None
   \<and> fact_value 3 (projr (port_config linux (cmdline [(''OS_ANDROID'', IntLit 1)])))
        ''LEVELDB_IS_BIG_ENDIAN'' = None
   \<and> \<not> isl (port_config linux (cmdline [(''HAVE_SNAPPY'', Empty)]))
   \<and> lookup (projr (port_config linux (cmdline [(''HAVE_SNAPPY'', Empty)])))
        ''HAVE_SNAPPY'' = Some Empty
   \<and> fact_value 3 (projr (port_config linux (cmdline [(''HAVE_SNAPPY'', Empty)])))
        ''HAVE_SNAPPY'' = None"
  by (simp add: port_config_apple_plain port_config_android_glibc port_config_empty_snappy
      lookup_def fact_value_def numeral_3_eq_3)

end
